theory Spec2Isabelle
  imports Main "HOL-Library.Word" "HOL-Library.Signed_Division"
begin

unbundle bit_operations_syntax

section \<open>Data model\<close>

text \<open>
  The repository has two source files: \<^verbatim>\<open>pkg/certmgmt/certificate.go\<close> (the
  certificate engine) and \<^verbatim>\<open>pkg/certs/access/access.go\<close>, which holds the polling
  watcher \<^verbatim>\<open>AccessSource\<close> and the file watcher \<^verbatim>\<open>CertWatcher\<close>.

  A Go \<^verbatim>\<open>[]byte\<close> is a \<open>slice\<close>: \<open>None\<close> is the nil slice, \<open>Some bs\<close> a
  non-nil slice with contents \<open>bs\<close> (an Isabelle \<open>char\<close> is one byte).
  \<^verbatim>\<open>time.Duration\<close> is an \<^verbatim>\<open>int64\<close> count of nanoseconds, so a 64-bit word read
  with \<open>sint\<close>; an instant (\<^verbatim>\<open>time.Time\<close>) is an integer count of nanoseconds.
\<close>

type_synonym bytes = "char list"
type_synonym slice = "bytes option"
type_synonym Time = int
type_synonym Duration = "64 word"

definition len :: "slice \<Rightarrow> nat" where
  "len s = (case s of None \<Rightarrow> 0 | Some bs \<Rightarrow> length bs)"

definition bytes_of :: "slice \<Rightarrow> bytes" where
  "bytes_of s = (case s of None \<Rightarrow> [] | Some bs \<Rightarrow> bs)"

definition Nanosecond :: Duration where "Nanosecond = 1"
definition Second :: Duration where "Second = 1000000000 * Nanosecond"
definition Minute :: Duration where "Minute = 60 * Second"
definition Hour :: Duration where "Hour = 60 * Minute"

text \<open>\<^verbatim>\<open>t.Add(d)\<close>: the instant \<open>d\<close> nanoseconds after \<open>t\<close>.\<close>

definition Time_Add :: "Time \<Rightarrow> Duration \<Rightarrow> Time" where
  "Time_Add t d = t + sint d"

text \<open>
  Go's \<^verbatim>\<open>/\<close> on \<^verbatim>\<open>int64\<close> truncates towards zero; \<^verbatim>\<open>*\<close> wraps around, as
  word multiplication does.
\<close>

definition dur_div :: "Duration \<Rightarrow> Duration \<Rightarrow> Duration" where
  "dur_div a b = word_of_int (sint a sdiv sint b)"

text \<open>
  Errors are values. The first group are error values that the libraries and the store
  hand back (opaque text); the second group are the errors the source itself creates;
  the last two are run-time panics of the source (an index out of range, a nil
  dereference), which unwind through every caller.
\<close>

datatype error =
    LibError string
  | NotAPrivateKey
  | MustSpecifyCommonName
  | MustSpecifyExtKeyUsage
  | FailedCAKeyPair error
  | FailedCACert error
  | FailedServerKeyPair error
  | FailedServerCert error
  | IndexOutOfRange
  | NilDereference

text \<open>The struct \<^verbatim>\<open>info\<close> of certificate.go, lines 39-44.\<close>

record info =
  cert :: slice
  key :: slice
  cacert :: slice
  cakey :: slice

text \<open>
  Modelled from the spec: the interface \<^verbatim>\<open>CertificateInfo\<close> is declared outside the two
  source files; it is the bundle of four byte blobs read through \<^verbatim>\<open>Cert\<close>, \<^verbatim>\<open>Key\<close>,
  \<^verbatim>\<open>CACert\<close> and \<^verbatim>\<open>CAKey\<close>, which \<^verbatim>\<open>*info\<close> implements (lines 46-69).
  A \<^verbatim>\<open>CertificateInfo\<close> is an interface value holding a \<^verbatim>\<open>*info\<close>: nil, or the
  address of an \<open>info\<close> object in the heap. The source compares such values with
  \<^verbatim>\<open>!=\<close> (access.go line 63), which is pointer identity, so the heap is explicit:
  a list of objects, an address being an index, a new object taking the next index.
\<close>

type_synonym heap = "info list"
type_synonym CertificateInfo = "nat option"

definition heap_get :: "heap \<Rightarrow> nat \<Rightarrow> info option" where
  "heap_get h a = (if a < length h then Some (h ! a) else None)"

text \<open>
  Modelled from the spec: the configuration \<^verbatim>\<open>certmgmt.Config\<close> is declared outside
  the two source files; it holds the common name, the DNS names (the first is the one
  checked), the validity of a server certificate and the renewal lookahead \<^verbatim>\<open>Rest\<close>.
  These are the four fields the source reads.
\<close>

record Config =
  CommonName :: string
  DnsNames :: "string list"
  Validity :: Duration
  Rest :: Duration

subsection \<open>Library types\<close>

datatype ExtKeyUsage =
    ExtKeyUsageAny
  | ExtKeyUsageServerAuth
  | ExtKeyUsageClientAuth
  | ExtKeyUsageCodeSigning

text \<open>\<^verbatim>\<open>x509.KeyUsage\<close> is a bit set in an \<^verbatim>\<open>int\<close>: \<^verbatim>\<open>1 << iota\<close>.\<close>

definition KeyUsageDigitalSignature :: "64 word" where "KeyUsageDigitalSignature = push_bit 0 1"
definition KeyUsageContentCommitment :: "64 word" where "KeyUsageContentCommitment = push_bit 1 1"
definition KeyUsageKeyEncipherment :: "64 word" where "KeyUsageKeyEncipherment = push_bit 2 1"

record pkix_Name =
  CommonName :: string
  Organization :: "string list"

record x509_Certificate =
  Subject :: pkix_Name
  DNSNames :: "string list"
  IPAddresses :: "bytes list"
  SerialNumber :: int
  NotBefore :: Time
  NotAfter :: Time
  KeyUsage :: "64 word"
  ExtKeyUsage :: "ExtKeyUsage list"

record AltNames =
  DNSNames :: "string list"
  IPs :: "bytes list"

record cert_Config =
  CommonName :: string
  Organization :: "string list"
  AltNames :: AltNames
  Usages :: "ExtKeyUsage list"

record rsa_PublicKey =
  N :: int
  E :: int

record rsa_PrivateKey =
  PublicKey :: rsa_PublicKey
  D :: int
  Primes :: "int list"

text \<open>
  A private key behind an interface (\<^verbatim>\<open>crypto.Signer\<close>, \<^verbatim>\<open>interface{}\<close>): an RSA
  key, on which the type assertion \<^verbatim>\<open>.(*rsa.PrivateKey)\<close> succeeds, or a key of
  another algorithm.
\<close>

datatype signer = RSA rsa_PrivateKey | OtherKey string

record tls_Certificate =
  Certificate :: "bytes list"
  PrivateKey :: signer

record pem_Block =
  Type :: string
  Headers :: "(string \<times> string) list"
  Bytes :: bytes

type_synonym CertPool = "x509_Certificate list"

record VerifyOptions =
  DNSName :: string
  Roots :: CertPool
  CurrentTime :: Time

subsection \<open>The libraries\<close>

text \<open>
  The cryptographic library, the clock and the random source are parameters of the
  model: a record of functions, one per library function the source calls. A function
  that reads the clock or the random source takes the world \<open>'w\<close> and returns the new
  one. The encoders return bytes, not a slice: \<^verbatim>\<open>pem.EncodeToMemory\<close> returns nil only
  for a block with a malformed header, and the source passes no headers.
\<close>

record 'w env =
  time_Now :: "'w \<Rightarrow> Time \<times> 'w"
  cryptorand_Int :: "'w \<Rightarrow> int \<Rightarrow> (error + int) \<times> 'w"
  pkiutil_NewPrivateKey :: "'w \<Rightarrow> (error + signer) \<times> 'w"
  x509_MarshalPKCS1PrivateKey :: "rsa_PrivateKey \<Rightarrow> bytes"
  pem_EncodeToMemory :: "pem_Block \<Rightarrow> bytes"
  pem_Decode :: "bytes \<Rightarrow> pem_Block option"
  pkiutil_EncodeCertPEM :: "x509_Certificate \<Rightarrow> bytes"
  tls_X509KeyPair :: "bytes \<Rightarrow> bytes \<Rightarrow> error + tls_Certificate"
  AppendCertsFromPEM :: "CertPool \<Rightarrow> bytes \<Rightarrow> CertPool \<times> bool"
  x509_ParseCertificate :: "bytes \<Rightarrow> error + x509_Certificate"
  x509_Verify :: "x509_Certificate \<Rightarrow> VerifyOptions \<Rightarrow> error option"
  keyutil_ParsePrivateKeyPEM :: "bytes \<Rightarrow> error + signer"
  cert_ParseCertsPEM :: "bytes \<Rightarrow> error + x509_Certificate list"
  cert_NewSelfSignedCACert :: "'w \<Rightarrow> cert_Config \<Rightarrow> rsa_PrivateKey \<Rightarrow> (error + x509_Certificate) \<times> 'w"
  x509_CreateCertificate ::
    "'w \<Rightarrow> x509_Certificate \<Rightarrow> x509_Certificate \<Rightarrow> rsa_PublicKey \<Rightarrow> rsa_PrivateKey \<Rightarrow> (error + bytes) \<times> 'w"

definition RSAPrivateKeyBlockType :: string where
  "RSAPrivateKeyBlockType = ''RSA PRIVATE KEY''"

definition MaxInt64 :: int where
  "MaxInt64 = 2 ^ 63 - 1"

definition NewCertPool :: CertPool where
  "NewCertPool = []"

section \<open>The certificate engine (certificate.go)\<close>

text \<open>\<^verbatim>\<open>newPrivateKey\<close>, lines 71-81.\<close>

definition newPrivateKey :: "'w env \<Rightarrow> 'w \<Rightarrow> (error + rsa_PrivateKey) \<times> 'w" where
  "newPrivateKey env w =
     (case pkiutil_NewPrivateKey env w of
        (Inl err, w1) \<Rightarrow> (Inl err, w1)
      | (Inr signer, w1) \<Rightarrow>
          (case signer of
             RSA k \<Rightarrow> (Inr k, w1)
           | OtherKey _ \<Rightarrow> (Inl NotAPrivateKey, w1)))"

text \<open>\<^verbatim>\<open>encodePrivateKeyPEM\<close>, lines 84-90.\<close>

definition encodePrivateKeyPEM :: "'w env \<Rightarrow> rsa_PrivateKey \<Rightarrow> bytes" where
  "encodePrivateKeyPEM env k =
     pem_EncodeToMemory env
       \<lparr> Type = RSAPrivateKeyBlockType, Headers = [], Bytes = x509_MarshalPKCS1PrivateKey env k \<rparr>"

text \<open>
  \<^verbatim>\<open>Valid\<close>, lines 181-217. The diagnostic \<^verbatim>\<open>fmt.Printf\<close> calls of the engine are
  left out. The clock is read once, and only when every earlier check has passed.
\<close>

definition Valid ::
  "'w env \<Rightarrow> 'w \<Rightarrow> slice \<Rightarrow> slice \<Rightarrow> slice \<Rightarrow> string \<Rightarrow> Duration \<Rightarrow> bool \<times> 'w" where
  "Valid env w k c ca dnsname duration =
     (if len c = 0 \<or> len k = 0 \<or> len ca = 0 then (False, w)
      else
        (case tls_X509KeyPair env (bytes_of c) (bytes_of k) of
           Inl err \<Rightarrow> (False, w)
         | Inr pair \<Rightarrow>
             (case AppendCertsFromPEM env NewCertPool (bytes_of ca) of
                (pool, appended) \<Rightarrow>
                  if \<not> appended then (False, w)
                  else
                    (case pem_Decode env (bytes_of c) of
                       None \<Rightarrow> (False, w)
                     | Some block \<Rightarrow>
                         (case x509_ParseCertificate env (Bytes block) of
                            Inl err \<Rightarrow> (False, w)
                          | Inr parsed \<Rightarrow>
                              (case time_Now env w of
                                 (now, w1) \<Rightarrow>
                                   (x509_Verify env parsed
                                      \<lparr> DNSName = dnsname, Roots = pool,
                                        CurrentTime = Time_Add now duration \<rparr> = None,
                                    w1)))))))"

text \<open>\<^verbatim>\<open>IsValid\<close>, lines 169-179.\<close>

definition IsValid :: "'w env \<Rightarrow> 'w \<Rightarrow> info \<Rightarrow> string \<Rightarrow> Duration \<Rightarrow> bool \<times> 'w" where
  "IsValid env w i dnsname duration =
     (if cert i = None \<or> key i = None then (False, w)
      else if cacert i = None then (False, w)
      else Valid env w (key i) (cert i) (cacert i) dnsname duration)"

text \<open>
  \<^verbatim>\<open>NewSignedCert\<close>, lines 220-250. \<open>certTmpl\<close> is the template of lines 232-244;
  \<^verbatim>\<open>.UTC()\<close> changes the location an instant is printed in, not the instant.
\<close>

definition certTmpl :: "cert_Config \<Rightarrow> int \<Rightarrow> x509_Certificate \<Rightarrow> Time \<Rightarrow> Duration \<Rightarrow> x509_Certificate" where
  "certTmpl cfg serial caCert now duration =
     \<lparr> Subject = \<lparr> pkix_Name.CommonName = cert_Config.CommonName cfg,
                   pkix_Name.Organization = cert_Config.Organization cfg \<rparr>,
       x509_Certificate.DNSNames = AltNames.DNSNames (AltNames cfg),
       IPAddresses = IPs (AltNames cfg),
       SerialNumber = serial,
       NotBefore = NotBefore caCert,
       NotAfter = Time_Add now duration,
       KeyUsage = KeyUsageKeyEncipherment OR KeyUsageDigitalSignature,
       ExtKeyUsage = Usages cfg \<rparr>"

definition NewSignedCert ::
  "'w env \<Rightarrow> 'w \<Rightarrow> cert_Config \<Rightarrow> rsa_PrivateKey \<Rightarrow> x509_Certificate \<Rightarrow> rsa_PrivateKey \<Rightarrow> Duration
     \<Rightarrow> (error + x509_Certificate) \<times> 'w" where
  "NewSignedCert env w cfg k caCert caKey duration =
     (case cryptorand_Int env w MaxInt64 of
        (Inl err, w1) \<Rightarrow> (Inl err, w1)
      | (Inr serial, w1) \<Rightarrow>
          if length (cert_Config.CommonName cfg) = 0 then (Inl MustSpecifyCommonName, w1)
          else if length (Usages cfg) = 0 then (Inl MustSpecifyExtKeyUsage, w1)
          else
            (case time_Now env w1 of
               (now, w2) \<Rightarrow>
                 (case x509_CreateCertificate env w2 (certTmpl cfg serial caCert now duration)
                         caCert (PublicKey k) caKey of
                    (Inl err, w3) \<Rightarrow> (Inl err, w3)
                  | (Inr der, w3) \<Rightarrow> (x509_ParseCertificate env der, w3))))"

text \<open>
  \<^verbatim>\<open>UpdateCertificate\<close>, lines 92-167, in the four stages it is written in.
  \<open>copy_old\<close> is lines 93-99: the working object \<^verbatim>\<open>new\<close> with the four fields of
  \<^verbatim>\<open>old\<close>, or empty.
\<close>

definition copy_old :: "heap \<Rightarrow> CertificateInfo \<Rightarrow> error + info" where
  "copy_old h old =
     (case old of
        None \<Rightarrow> Inr \<lparr> cert = None, key = None, cacert = None, cakey = None \<rparr>
      | Some a \<Rightarrow>
          (case heap_get h a of
             None \<Rightarrow> Inl NilDereference
           | Some i \<Rightarrow> Inr \<lparr> cert = cert i, key = key i, cacert = cacert i, cakey = cakey i \<rparr>))"

text \<open>
  \<open>reuse_ca\<close> is lines 110-128: the value of \<^verbatim>\<open>ok\<close>, \<^verbatim>\<open>caKey\<close> and \<^verbatim>\<open>caCert\<close>
  when line 129 is reached. \<^verbatim>\<open>ok\<close> starts false; the self-check of the CA is
  \<^verbatim>\<open>Valid\<close> with the CA certificate as its own trust root, no DNS name and a
  lookahead of \<^verbatim>\<open>5*time.Hour*24\<close>; a key that does not parse, a key that is not RSA and
  a certificate that does not parse each set \<^verbatim>\<open>ok\<close> to false.
\<close>

definition parse_ca_key :: "'w env \<Rightarrow> info \<Rightarrow> bool \<times> rsa_PrivateKey option" where
  "parse_ca_key env new =
     (case keyutil_ParsePrivateKeyPEM env (bytes_of (cakey new)) of
        Inl err \<Rightarrow> (False, None)
      | Inr signer \<Rightarrow> (case signer of RSA k \<Rightarrow> (True, Some k) | OtherKey _ \<Rightarrow> (False, None)))"

definition reuse_ca ::
  "'w env \<Rightarrow> 'w \<Rightarrow> info \<Rightarrow> (error + bool \<times> rsa_PrivateKey option \<times> x509_Certificate option) \<times> 'w" where
  "reuse_ca env w new =
     (if cacert new \<noteq> None then
        (case Valid env w (cakey new) (cacert new) (cacert new) [] (5 * Hour * 24) of
           (ok, w1) \<Rightarrow>
             if ok then
               (case parse_ca_key env new of
                  (ok1, caKey) \<Rightarrow>
                    (case cert_ParseCertsPEM env (bytes_of (cacert new)) of
                       Inl err \<Rightarrow> (Inr (False, caKey, None), w1)
                     | Inr certs \<Rightarrow>
                         (case certs of
                            [] \<Rightarrow> (Inl IndexOutOfRange, w1)
                          | c0 # _ \<Rightarrow> (Inr (ok1, caKey, Some c0), w1))))
             else (Inr (False, None, None), w1))
      else (Inr (False, None, None), w))"

text \<open>
  \<open>generate_ca\<close> is lines 130-141: a new CA key and a self-signed CA certificate;
  \<open>ca_Config\<close> is the \<^verbatim>\<open>cert.Config\<close> of line 137.
\<close>

definition ca_Config :: "Config \<Rightarrow> cert_Config" where
  "ca_Config cfg =
     \<lparr> cert_Config.CommonName = ''webhook-certmgmt-ca:'' @ Config.CommonName cfg,
       cert_Config.Organization = [],
       AltNames = \<lparr> AltNames.DNSNames = [], IPs = [] \<rparr>,
       Usages = [] \<rparr>"

definition generate_ca ::
  "'w env \<Rightarrow> 'w \<Rightarrow> Config \<Rightarrow> info \<Rightarrow> (error + info \<times> rsa_PrivateKey \<times> x509_Certificate) \<times> 'w" where
  "generate_ca env w cfg new =
     (case newPrivateKey env w of
        (Inl err, w1) \<Rightarrow> (Inl (FailedCAKeyPair err), w1)
      | (Inr caKey, w1) \<Rightarrow>
          (case cert_NewSelfSignedCACert env w1 (ca_Config cfg) caKey of
             (Inl err, w2) \<Rightarrow> (Inl (FailedCACert err), w2)
           | (Inr caCert, w2) \<Rightarrow>
               (Inr (new\<lparr> cakey := Some (encodePrivateKeyPEM env caKey),
                          cacert := Some (pkiutil_EncodeCertPEM env caCert) \<rparr>,
                     caKey, caCert), w2)))"

text \<open>
  \<open>issue_server\<close> is lines 144-164: a new server key and a certificate for it, signed
  by the CA. \<open>server_Config\<close> is the \<^verbatim>\<open>cert.Config\<close> of lines 152-158.
\<close>

definition server_Config :: "Config \<Rightarrow> cert_Config" where
  "server_Config cfg =
     \<lparr> cert_Config.CommonName = Config.CommonName cfg,
       cert_Config.Organization = [],
       AltNames = \<lparr> AltNames.DNSNames = DnsNames cfg, IPs = [] \<rparr>,
       Usages = [ExtKeyUsageServerAuth] \<rparr>"

definition issue_server ::
  "'w env \<Rightarrow> 'w \<Rightarrow> Config \<Rightarrow> info \<Rightarrow> rsa_PrivateKey \<Rightarrow> x509_Certificate \<Rightarrow> (error + info) \<times> 'w" where
  "issue_server env w cfg new caKey caCert =
     (case newPrivateKey env w of
        (Inl err, w1) \<Rightarrow> (Inl (FailedServerKeyPair err), w1)
      | (Inr newKey, w1) \<Rightarrow>
          (case NewSignedCert env w1 (server_Config cfg) newKey caCert caKey (Validity cfg) of
             (Inl err, w2) \<Rightarrow> (Inl (FailedServerCert err), w2)
           | (Inr newCert, w2) \<Rightarrow>
               (Inr (new\<lparr> key := Some (encodePrivateKeyPEM env newKey),
                          cert := Some (pkiutil_EncodeCertPEM env newCert) \<rparr>), w2)))"

text \<open>
  \<open>regenerate\<close> is the body of the \<^verbatim>\<open>if !IsValid(...)\<close>, lines 109-164: the CA is
  reused when \<^verbatim>\<open>new.cacert != nil\<close> and \<^verbatim>\<open>ok\<close>, generated otherwise (line 129), and
  the server certificate is issued. \<^verbatim>\<open>NewSignedCert\<close> reads \<^verbatim>\<open>caCert.NotBefore\<close>, a nil
  dereference were \<^verbatim>\<open>caCert\<close> nil.
\<close>

definition regenerate :: "'w env \<Rightarrow> 'w \<Rightarrow> Config \<Rightarrow> info \<Rightarrow> (error + info) \<times> 'w" where
  "regenerate env w cfg new =
     (case reuse_ca env w new of
        (Inl err, w1) \<Rightarrow> (Inl err, w1)
      | (Inr (ok, caKey, caCert), w1) \<Rightarrow>
          if cacert new = None \<or> \<not> ok then
            (case generate_ca env w1 cfg new of
               (Inl err, w2) \<Rightarrow> (Inl err, w2)
             | (Inr (new1, caKey1, caCert1), w2) \<Rightarrow> issue_server env w2 cfg new1 caKey1 caCert1)
          else
            (case (caKey, caCert) of
               (Some caKey1, Some caCert1) \<Rightarrow> issue_server env w1 cfg new caKey1 caCert1
             | _ \<Rightarrow> (Inl NilDereference, w1)))"

text \<open>
  \<^verbatim>\<open>UpdateCertificate\<close>. \<^verbatim>\<open>cfg.DnsNames[0]\<close> panics on an empty list. The result is
  \<^verbatim>\<open>old\<close> itself when the working copy is valid (line 166), and otherwise the address
  of the new object, which is then the last object of the heap. An object that no result
  points to (the working copy on line 166 and on the error returns) is not kept in the
  heap.
\<close>

definition UpdateCertificate ::
  "'w env \<Rightarrow> 'w \<Rightarrow> heap \<Rightarrow> CertificateInfo \<Rightarrow> Config \<Rightarrow> (error + CertificateInfo) \<times> 'w \<times> heap" where
  "UpdateCertificate env w h old cfg =
     (case copy_old h old of
        Inl err \<Rightarrow> (Inl err, w, h)
      | Inr new \<Rightarrow>
          (case DnsNames cfg of
             [] \<Rightarrow> (Inl IndexOutOfRange, w, h)
           | dnsname # _ \<Rightarrow>
               (case IsValid env w new dnsname (Rest cfg) of
                  (valid, w1) \<Rightarrow>
                    if \<not> valid then
                      (case regenerate env w1 cfg new of
                         (Inl err, w2) \<Rightarrow> (Inl err, w2, h)
                       | (Inr new1, w2) \<Rightarrow> (Inr (Some (length h)), w2, h @ [new1]))
                    else (Inr old, w1, h))))"

subsection \<open>When the CA is kept\<close>

text \<open>
  The condition under which a regeneration keeps the CA, in words: the CA certificate is
  present, it is valid against itself with a lookahead of five days, the CA key parses
  from PEM as an RSA key, and the CA certificate parses with \<^verbatim>\<open>cert.ParseCertsPEM\<close>.
\<close>

definition ca_acceptable :: "'w env \<Rightarrow> 'w \<Rightarrow> info \<Rightarrow> bool" where
  "ca_acceptable env w new =
     (cacert new \<noteq> None
      \<and> fst (Valid env w (cakey new) (cacert new) (cacert new) [] (5 * Hour * 24))
      \<and> (case keyutil_ParsePrivateKeyPEM env (bytes_of (cakey new)) of
            Inr (RSA k) \<Rightarrow> True
          | _ \<Rightarrow> False)
      \<and> (case cert_ParseCertsPEM env (bytes_of (cacert new)) of
            Inr certs \<Rightarrow> True
          | Inl err \<Rightarrow> False))"

section \<open>The polling watcher (access.go, package access)\<close>

text \<open>
  Modelled from the spec: the store is the interface \<^verbatim>\<open>certmgmt.CertificateAccess\<close>,
  declared outside the two source files, with \<^verbatim>\<open>Get\<close>, which returns a bundle or an
  error, and \<^verbatim>\<open>Set\<close>, which takes a bundle and returns an error or nil. It is a
  parameter: a record of the two methods. \<^verbatim>\<open>Get\<close> may create a bundle in the heap.
\<close>

record 'w CertificateAccess =
  Get :: "'w \<Rightarrow> heap \<Rightarrow> (error + CertificateInfo) \<times> 'w \<times> heap"
  Set :: "'w \<Rightarrow> heap \<Rightarrow> CertificateInfo \<Rightarrow> error option \<times> 'w"

text \<open>
  The calls a watcher method makes itself, in order; the calls made inside
  \<^verbatim>\<open>UpdateCertificate\<close> are not listed (they show in the world). Logging is left out.
  The methods are modelled one call at a time: the mutex shows as its \<open>Lock\<close> and
  \<open>Unlock\<close> calls.
\<close>

datatype call =
    CallGet
  | CallUpdateCertificate
  | CallSet CertificateInfo
  | CallX509KeyPair
  | CallLoadX509KeyPair
  | CallLock
  | CallUnlock
  | CallNewTimer Duration
  | CallTimerReset Duration
  | CallTimerStop
  | CallNewWatcher
  | CallWatcherAdd string
  | CallWatcherClose
  | GoWatch

record 'w AccessSource =
  currentCert :: "tls_Certificate option"
  config :: Config
  access :: "'w CertificateAccess"

text \<open>
  \<^verbatim>\<open>AccessSource.ReadCertificate\<close>, lines 54-81. \<^verbatim>\<open>info.Cert()\<close> on line 73 is a
  method call on the interface value, a nil dereference were it nil.
\<close>

definition AccessSource_ReadCertificate ::
  "'w env \<Rightarrow> 'w AccessSource \<Rightarrow> 'w \<Rightarrow> heap \<Rightarrow> call list
     \<Rightarrow> error option \<times> 'w AccessSource \<times> 'w \<times> heap \<times> call list" where
  "AccessSource_ReadCertificate env this w h tr =
     (case Get (access this) w h of
        (Inl err, w1, h1) \<Rightarrow> (Some err, this, w1, h1, tr @ [CallGet])
      | (Inr info, w1, h1) \<Rightarrow>
          (case UpdateCertificate env w1 h1 info (config this) of
             (Inl err, w2, h2) \<Rightarrow> (Some err, this, w2, h2, tr @ [CallGet, CallUpdateCertificate])
           | (Inr new, w2, h2) \<Rightarrow>
               if info \<noteq> new \<or> AccessSource.currentCert this = None then
                 (case Set (access this) w2 h2 new of
                    (Some err, w3) \<Rightarrow>
                      (Some err, this, w3, h2, tr @ [CallGet, CallUpdateCertificate, CallSet new])
                  | (None, w3) \<Rightarrow>
                      (case (case new of None \<Rightarrow> None | Some a \<Rightarrow> heap_get h2 a) of
                         None \<Rightarrow>
                           (Some NilDereference, this, w3, h2,
                            tr @ [CallGet, CallUpdateCertificate, CallSet new])
                       | Some i \<Rightarrow>
                           (case tls_X509KeyPair env (bytes_of (cert i)) (bytes_of (key i)) of
                              Inl err \<Rightarrow>
                                (Some err, this, w3, h2,
                                 tr @ [CallGet, CallUpdateCertificate, CallSet new, CallX509KeyPair])
                            | Inr pair \<Rightarrow>
                                (None, this\<lparr> AccessSource.currentCert := Some pair \<rparr>, w3, h2,
                                 tr @ [CallGet, CallUpdateCertificate, CallSet new, CallX509KeyPair,
                                       CallLock, CallUnlock]))))
               else (None, this, w2, h2, tr @ [CallGet, CallUpdateCertificate])))"

text \<open>
  \<^verbatim>\<open>AccessSource.GetCertificate\<close>, lines 84-88: the certificate (nil when none is
  loaded) and the error, which is always nil. The client hello is ignored.
\<close>

definition AccessSource_GetCertificate ::
  "'w AccessSource \<Rightarrow> 'hello \<Rightarrow> call list \<Rightarrow> (tls_Certificate option \<times> error option) \<times> call list" where
  "AccessSource_GetCertificate this hello tr =
     ((AccessSource.currentCert this, None), tr @ [CallLock, CallUnlock])"

text \<open>
  \<^verbatim>\<open>AccessSource.watch\<close>, lines 94-125. \<open>interval\<close> is lines 95-98 and \<open>reschedule\<close>
  lines 112-121: the delay the timer is reset to and the next back-off, from the result
  of the refresh. The loop runs over what its \<^verbatim>\<open>select\<close> receives, one element per
  iteration; when the list ends the goroutine is waiting in the \<^verbatim>\<open>select\<close>. A refresh
  that panics ends the goroutine there.
\<close>

definition interval :: "Config \<Rightarrow> Duration" where
  "interval cfg = (let d = Rest cfg in if 10 * Minute <s d then 10 * Minute else d)"

definition reschedule :: "Duration \<Rightarrow> Duration \<Rightarrow> error option \<Rightarrow> Duration \<times> Duration" where
  "reschedule d backoff err =
     (case err of
        Some e \<Rightarrow> (backoff, dur_div (backoff * 3) 2)
      | None \<Rightarrow> (d, 1 * Second))"

datatype received = StopClosed | TimerFired | TimerClosed

definition panicked :: "error option \<Rightarrow> bool" where
  "panicked err = (err = Some IndexOutOfRange \<or> err = Some NilDereference)"

fun watch_loop ::
  "'w env \<Rightarrow> Duration \<Rightarrow> Duration \<Rightarrow> received list \<Rightarrow> 'w AccessSource \<Rightarrow> 'w \<Rightarrow> heap \<Rightarrow> call list
     \<Rightarrow> 'w AccessSource \<times> 'w \<times> heap \<times> call list" where
  "watch_loop env d backoff [] this w h tr = (this, w, h, tr)"
| "watch_loop env d backoff (StopClosed # rs) this w h tr = (this, w, h, tr @ [CallTimerStop])"
| "watch_loop env d backoff (TimerClosed # rs) this w h tr = (this, w, h, tr)"
| "watch_loop env d backoff (TimerFired # rs) this w h tr =
     (case AccessSource_ReadCertificate env this w h tr of
        (err, this1, w1, h1, tr1) \<Rightarrow>
          if panicked err then (this1, w1, h1, tr1)
          else
            (case reschedule d backoff err of
               (next, backoff1) \<Rightarrow>
                 watch_loop env d backoff1 rs this1 w1 h1 (tr1 @ [CallTimerReset next])))"

definition AccessSource_watch ::
  "'w env \<Rightarrow> received list \<Rightarrow> 'w AccessSource \<Rightarrow> 'w \<Rightarrow> heap \<Rightarrow> call list
     \<Rightarrow> 'w AccessSource \<times> 'w \<times> heap \<times> call list" where
  "AccessSource_watch env rs this w h tr =
     (let d = interval (config this) in
      watch_loop env d (1 * Second) rs this w h (tr @ [CallNewTimer d]))"

text \<open>
  What a run of the loop shows of its schedule: \<open>timers\<close> are the durations the timer
  was set to, in order (by \<^verbatim>\<open>NewTimer\<close> and by \<^verbatim>\<open>Reset\<close>); \<open>outcomes\<close> are the results
  of the refreshes of the run that returned, one per tick; and \<open>schedule\<close> are the
  delays that \<open>reschedule\<close> gives for a list of results.
\<close>

definition timers :: "call list \<Rightarrow> Duration list" where
  "timers tr =
     concat (map (\<lambda>c. case c of CallNewTimer d \<Rightarrow> [d] | CallTimerReset d \<Rightarrow> [d] | _ \<Rightarrow> []) tr)"

fun outcomes ::
  "'w env \<Rightarrow> Duration \<Rightarrow> Duration \<Rightarrow> received list \<Rightarrow> 'w AccessSource \<Rightarrow> 'w \<Rightarrow> heap \<Rightarrow> call list
     \<Rightarrow> error option list" where
  "outcomes env d backoff [] this w h tr = []"
| "outcomes env d backoff (StopClosed # rs) this w h tr = []"
| "outcomes env d backoff (TimerClosed # rs) this w h tr = []"
| "outcomes env d backoff (TimerFired # rs) this w h tr =
     (case AccessSource_ReadCertificate env this w h tr of
        (err, this1, w1, h1, tr1) \<Rightarrow>
          if panicked err then []
          else
            (case reschedule d backoff err of
               (next, backoff1) \<Rightarrow>
                 err # outcomes env d backoff1 rs this1 w1 h1 (tr1 @ [CallTimerReset next])))"

fun schedule :: "Duration \<Rightarrow> Duration \<Rightarrow> error option list \<Rightarrow> Duration list" where
  "schedule d backoff [] = []"
| "schedule d backoff (err # errs) =
     (case reschedule d backoff err of
        (next, backoff1) \<Rightarrow> next # schedule d backoff1 errs)"

text \<open>
  \<^verbatim>\<open>access.New\<close>, lines 39-52, with \<^verbatim>\<open>start\<close>, lines 90-92, which starts the loop
  as a goroutine and returns.
\<close>

definition access_New ::
  "'w env \<Rightarrow> 'w CertificateAccess \<Rightarrow> Config \<Rightarrow> 'w \<Rightarrow> heap \<Rightarrow> call list
     \<Rightarrow> (error + 'w AccessSource) \<times> 'w \<times> heap \<times> call list" where
  "access_New env acc cfg w h tr =
     (case AccessSource_ReadCertificate env
             \<lparr> AccessSource.currentCert = None, config = cfg, access = acc \<rparr> w h tr of
        (Some err, this, w1, h1, tr1) \<Rightarrow> (Inl err, w1, h1, tr1)
      | (None, this, w1, h1, tr1) \<Rightarrow> (Inr this, w1, h1, tr1 @ [GoWatch]))"

section \<open>The file watcher (access.go, package file)\<close>

text \<open>
  The file system and \<^verbatim>\<open>fsnotify\<close> are parameters as well; a \<^verbatim>\<open>*fsnotify.Watcher\<close> is
  a handle. \<^verbatim>\<open>fsnotify.Op\<close> is a \<^verbatim>\<open>uint32\<close> bit set.
\<close>

record 'w fsys =
  tls_LoadX509KeyPair :: "'w \<Rightarrow> string \<Rightarrow> string \<Rightarrow> (error + tls_Certificate) \<times> 'w"
  fsnotify_NewWatcher :: "'w \<Rightarrow> (error + nat) \<times> 'w"
  Watcher_Add :: "'w \<Rightarrow> nat \<Rightarrow> string \<Rightarrow> error option \<times> 'w"
  Watcher_Close :: "'w \<Rightarrow> nat \<Rightarrow> error option \<times> 'w"

record fsnotify_Event =
  Name :: string
  Op :: "32 word"

definition Create :: "32 word" where "Create = push_bit 0 1"
definition Write :: "32 word" where "Write = push_bit 1 1"
definition Remove :: "32 word" where "Remove = push_bit 2 1"

definition isWrite :: "fsnotify_Event \<Rightarrow> bool" where
  "isWrite event = (Op event AND Write = Write)"

definition isCreate :: "fsnotify_Event \<Rightarrow> bool" where
  "isCreate event = (Op event AND Create = Create)"

definition isRemove :: "fsnotify_Event \<Rightarrow> bool" where
  "isRemove event = (Op event AND Remove = Remove)"

record CertWatcher =
  currentCert :: "tls_Certificate option"
  watcher :: "nat option"
  certPath :: string
  keyPath :: string

text \<open>\<^verbatim>\<open>CertWatcher.ReadCertificate\<close>, lines 250-263.\<close>

definition CertWatcher_ReadCertificate ::
  "'w fsys \<Rightarrow> CertWatcher \<Rightarrow> 'w \<Rightarrow> call list \<Rightarrow> error option \<times> CertWatcher \<times> 'w \<times> call list" where
  "CertWatcher_ReadCertificate fs this w tr =
     (case tls_LoadX509KeyPair fs w (certPath this) (keyPath this) of
        (Inl err, w1) \<Rightarrow> (Some err, this, w1, tr @ [CallLoadX509KeyPair])
      | (Inr pair, w1) \<Rightarrow>
          (None, this\<lparr> CertWatcher.currentCert := Some pair \<rparr>, w1,
           tr @ [CallLoadX509KeyPair, CallLock, CallUnlock]))"

text \<open>\<^verbatim>\<open>CertWatcher.GetCertificate\<close>, lines 198-202.\<close>

definition CertWatcher_GetCertificate ::
  "CertWatcher \<Rightarrow> 'hello \<Rightarrow> call list \<Rightarrow> (tls_Certificate option \<times> error option) \<times> call list" where
  "CertWatcher_GetCertificate this hello tr =
     ((CertWatcher.currentCert this, None), tr @ [CallLock, CallUnlock])"

text \<open>
  \<^verbatim>\<open>handleEvent\<close>, lines 265-283: both errors are logged and dropped. The source
  returns nothing; the result \<open>Some\<close> is a panic (the watcher handle nil).
\<close>

definition handleEvent ::
  "'w fsys \<Rightarrow> CertWatcher \<Rightarrow> fsnotify_Event \<Rightarrow> 'w \<Rightarrow> call list
     \<Rightarrow> error option \<times> CertWatcher \<times> 'w \<times> call list" where
  "handleEvent fs this event w tr =
     (if \<not> (isWrite event \<or> isRemove event \<or> isCreate event) then (None, this, w, tr)
      else if isRemove event then
        (case watcher this of
           None \<Rightarrow> (Some NilDereference, this, w, tr)
         | Some wt \<Rightarrow>
             (case Watcher_Add fs w wt (Name event) of
                (err, w1) \<Rightarrow>
                  (case CertWatcher_ReadCertificate fs this w1 (tr @ [CallWatcherAdd (Name event)]) of
                     (err1, this1, w2, tr1) \<Rightarrow> (None, this1, w2, tr1))))
      else
        (case CertWatcher_ReadCertificate fs this w tr of
           (err1, this1, w2, tr1) \<Rightarrow> (None, this1, w2, tr1)))"

text \<open>
  \<^verbatim>\<open>CertWatcher.watch\<close>, lines 225-245, over what the two channels of the watcher
  deliver; when the list ends the goroutine is waiting in the \<^verbatim>\<open>select\<close>.
\<close>

datatype delivery = EventMsg fsnotify_Event | ErrorMsg error | EventsClosed | ErrorsClosed

fun CertWatcher_watch ::
  "'w fsys \<Rightarrow> delivery list \<Rightarrow> CertWatcher \<Rightarrow> 'w \<Rightarrow> call list
     \<Rightarrow> error option \<times> CertWatcher \<times> 'w \<times> call list" where
  "CertWatcher_watch fs [] this w tr = (None, this, w, tr)"
| "CertWatcher_watch fs (EventMsg event # ds) this w tr =
     (case handleEvent fs this event w tr of
        (Some err, this1, w1, tr1) \<Rightarrow> (Some err, this1, w1, tr1)
      | (None, this1, w1, tr1) \<Rightarrow> CertWatcher_watch fs ds this1 w1 tr1)"
| "CertWatcher_watch fs (ErrorMsg err # ds) this w tr = CertWatcher_watch fs ds this w tr"
| "CertWatcher_watch fs (EventsClosed # ds) this w tr = (None, this, w, tr)"
| "CertWatcher_watch fs (ErrorsClosed # ds) this w tr = (None, this, w, tr)"

text \<open>
  The stop channel \<^verbatim>\<open>ctx.Done()\<close>: it is never closed (as for
  \<^verbatim>\<open>context.Background()\<close>), or it is closed after the watcher's channels have
  delivered the given list. Receiving from a channel that is never closed blocks for
  ever: the caller does not return, the value \<open>None\<close>.
\<close>

datatype stop_chan = NeverClosed | ClosedAfter "delivery list"

record Context =
  Done :: stop_chan

text \<open>
  \<^verbatim>\<open>CertWatcher.start\<close>, lines 205-222: the two \<^verbatim>\<open>Add\<close> calls, the goroutine, then
  the receive \<^verbatim>\<open><-stopCh\<close> on line 219, during which the goroutine consumes what is
  delivered, then \<^verbatim>\<open>Close\<close>. The result is \<open>Inr\<close> the error returned (nil or not),
  \<open>Inl\<close> a panic.
\<close>

fun add_files :: "'w fsys \<Rightarrow> nat \<Rightarrow> string list \<Rightarrow> 'w \<Rightarrow> call list \<Rightarrow> error option \<times> 'w \<times> call list" where
  "add_files fs wt [] w tr = (None, w, tr)"
| "add_files fs wt (f # files) w tr =
     (case Watcher_Add fs w wt f of
        (Some err, w1) \<Rightarrow> (Some err, w1, tr @ [CallWatcherAdd f])
      | (None, w1) \<Rightarrow> add_files fs wt files w1 (tr @ [CallWatcherAdd f]))"

definition CertWatcher_start ::
  "'w fsys \<Rightarrow> CertWatcher \<Rightarrow> stop_chan \<Rightarrow> 'w \<Rightarrow> call list
     \<Rightarrow> ((error + error option) \<times> CertWatcher \<times> 'w \<times> call list) option" where
  "CertWatcher_start fs this stopCh w tr =
     (case watcher this of
        None \<Rightarrow> Some (Inl NilDereference, this, w, tr)
      | Some wt \<Rightarrow>
          (case add_files fs wt [certPath this, keyPath this] w tr of
             (Some err, w1, tr1) \<Rightarrow> Some (Inr (Some err), this, w1, tr1)
           | (None, w1, tr1) \<Rightarrow>
               (case stopCh of
                  NeverClosed \<Rightarrow> None
                | ClosedAfter ds \<Rightarrow>
                    (case CertWatcher_watch fs ds this w1 (tr1 @ [GoWatch]) of
                       (Some panic, this1, w2, tr2) \<Rightarrow> Some (Inl panic, this1, w2, tr2)
                     | (None, this1, w2, tr2) \<Rightarrow>
                         (case Watcher_Close fs w2 wt of
                            (err, w3) \<Rightarrow> Some (Inr err, this1, w3, tr2 @ [CallWatcherClose]))))))"

text \<open>
  \<^verbatim>\<open>file.New\<close>, lines 173-195. Line 192 calls \<^verbatim>\<open>start\<close> in the caller's own
  goroutine and drops the error it returns.
\<close>

definition file_New ::
  "'w fsys \<Rightarrow> Context \<Rightarrow> string \<Rightarrow> string \<Rightarrow> 'w \<Rightarrow> call list
     \<Rightarrow> ((error + CertWatcher) \<times> 'w \<times> call list) option" where
  "file_New fs ctx cp kp w tr =
     (case CertWatcher_ReadCertificate fs
             \<lparr> CertWatcher.currentCert = None, watcher = None, certPath = cp, keyPath = kp \<rparr> w tr of
        (Some err, cw, w1, tr1) \<Rightarrow> Some (Inl err, w1, tr1)
      | (None, cw, w1, tr1) \<Rightarrow>
          (case fsnotify_NewWatcher fs w1 of
             (Inl err, w2) \<Rightarrow> Some (Inl err, w2, tr1 @ [CallNewWatcher])
           | (Inr wt, w2) \<Rightarrow>
               (case CertWatcher_start fs (cw\<lparr> watcher := Some wt \<rparr>) (Done ctx) w2
                       (tr1 @ [CallNewWatcher]) of
                  None \<Rightarrow> None
                | Some (Inl panic, cw1, w3, tr2) \<Rightarrow> Some (Inl panic, w3, tr2)
                | Some (Inr err, cw1, w3, tr2) \<Rightarrow> Some (Inr cw1, w3, tr2))))"

section \<open>The contract of the libraries\<close>

text \<open>
  What the fields of an issued certificate, and its validation, rest on in the libraries.
  These are statements about the parameters of the model, used as hypotheses; they are
  no code of the repository.

  \<^verbatim>\<open>cryptorand.Int(rand, max)\<close> returns a uniform random value in \<open>[0, max)\<close>.
\<close>

definition Int_contract :: "'w env \<Rightarrow> bool" where
  "Int_contract env =
     (\<forall>w m r w'. cryptorand_Int env w m = (Inr r, w') \<longrightarrow> 0 \<le> r \<and> r < m)"

text \<open>
  An X.509 certificate holds its two times in whole seconds (ASN.1 \<^verbatim>\<open>UTCTime\<close> and
  \<^verbatim>\<open>GeneralizedTime\<close>): the encoding drops the nanoseconds of an instant.
\<close>

definition whole_seconds :: "Time \<Rightarrow> Time" where
  "whole_seconds t = t - t mod 1000000000"

text \<open>
  So the two times of a certificate that a library function parsed are in whole seconds;
  \<^verbatim>\<open>cert.ParseCertsPEM\<close> returns parsed certificates, and
  \<^verbatim>\<open>cert.NewSelfSignedCACert\<close> returns the parse of the certificate it made.
\<close>

definition in_whole_seconds :: "x509_Certificate \<Rightarrow> bool" where
  "in_whole_seconds c =
     (whole_seconds (NotBefore c) = NotBefore c \<and> whole_seconds (NotAfter c) = NotAfter c)"

definition Parse_contract :: "'w env \<Rightarrow> bool" where
  "Parse_contract env =
     ((\<forall>bs certs c. cert_ParseCertsPEM env bs = Inr certs \<and> c \<in> set certs \<longrightarrow> in_whole_seconds c)
      \<and> (\<forall>w cfg k c w'. cert_NewSelfSignedCACert env w cfg k = (Inr c, w') \<longrightarrow> in_whole_seconds c))"

text \<open>
  The certificate parsed from the encoding that \<^verbatim>\<open>x509.CreateCertificate\<close> makes of a
  template has the serial number, the key usage, the extended key usage, the subject
  common name and the DNS names of the template, and its two times cut to whole seconds.
\<close>

definition CreateCertificate_contract :: "'w env \<Rightarrow> bool" where
  "CreateCertificate_contract env =
     (\<forall>w tmpl parent pub priv der w' c.
        x509_CreateCertificate env w tmpl parent pub priv = (Inr der, w')
        \<and> x509_ParseCertificate env der = Inr c \<longrightarrow>
          SerialNumber c = SerialNumber tmpl
          \<and> NotBefore c = whole_seconds (NotBefore tmpl)
          \<and> NotAfter c = whole_seconds (NotAfter tmpl)
          \<and> KeyUsage c = KeyUsage tmpl
          \<and> ExtKeyUsage c = ExtKeyUsage tmpl
          \<and> pkix_Name.CommonName (Subject c) = pkix_Name.CommonName (Subject tmpl)
          \<and> x509_Certificate.DNSNames c = x509_Certificate.DNSNames tmpl)"

text \<open>
  \<open>in_validity c t\<close>: the instant \<open>t\<close> lies in the validity period of \<open>c\<close>.
  \<open>self_signed env ca caKey\<close>: \<open>ca\<close> is a CA certificate that
  \<^verbatim>\<open>cert.NewSelfSignedCACert\<close> made for the key \<open>caKey\<close>.
  \<open>issued env ca caKey k c\<close>: \<open>c\<close> is a certificate for the public half of \<open>k\<close>,
  made by \<^verbatim>\<open>x509.CreateCertificate\<close> with the parent \<open>ca\<close> and the signing key
  \<open>caKey\<close>, and parsed.
\<close>

definition in_validity :: "x509_Certificate \<Rightarrow> Time \<Rightarrow> bool" where
  "in_validity c t = (NotBefore c \<le> t \<and> t \<le> NotAfter c)"




section \<open>An example library\<close>

text \<open>
  A small library to run the model on: certificates are written as text, the clock
  stands still during a call, the random source is a list of numbers, the store holds
  one bundle, and the files are a list of names with their contents. It is used only to
  evaluate the model on concrete inputs.
\<close>

record world =
  clock :: Time
  entropy :: "int list"
  outage :: nat
  secret :: "info option"
  files :: "(string \<times> bytes) list"
  watch_limit :: nat
  watched :: "string list"

definition demo_key :: "int \<Rightarrow> rsa_PrivateKey" where
  "demo_key r = \<lparr> PublicKey = \<lparr> N = r, E = 65537 \<rparr>, D = r, Primes = [] \<rparr>"

text \<open>Decimal digits of a number below \<open>10 ^ 19\<close>, and the number of a digit text.\<close>

definition digits :: "nat \<Rightarrow> string" where
  "digits n =
     (case dropWhile (\<lambda>c. c = CHR ''0'')
             (map (\<lambda>i. ''0123456789'' ! (n div 10 ^ i mod 10))
                [18, 17, 16, 15, 14, 13, 12, 11, 10, 9, 8, 7, 6, 5, 4, 3, 2, 1, 0]) of
        [] \<Rightarrow> ''0''
      | ds \<Rightarrow> ds)"

definition number :: "string \<Rightarrow> int" where
  "number ds = foldl (\<lambda>a c. 10 * a + (of_char c - 48)) 0 ds"

definition field :: "string \<Rightarrow> string" where
  "field bs = takeWhile (\<lambda>c. c \<noteq> CHR '','') bs"

definition fields :: "string \<Rightarrow> string" where
  "fields bs = drop 1 (dropWhile (\<lambda>c. c \<noteq> CHR '','') bs)"

text \<open>
  The encoding of a certificate (its DER) is the text
  \<open>serial,notBefore,notAfter,commonName\<close>; its PEM is that text after
  \<open>CERTIFICATE|\<close>. A PEM text may go on after a \<open>;\<close> with a second block: the
  functions that read the first certificate only stop there, and \<open>cert_ParseCertsPEM\<close>,
  which parses every block, rejects a text whose second block is not a certificate.
\<close>

definition demo_cert :: "bytes \<Rightarrow> x509_Certificate" where
  "demo_cert der =
     \<lparr> Subject = \<lparr> pkix_Name.CommonName = fields (fields (fields der)),
                   pkix_Name.Organization = [] \<rparr>,
       x509_Certificate.DNSNames = [fields (fields (fields der))],
       IPAddresses = [],
       SerialNumber = number (field der),
       NotBefore = number (field (fields der)),
       NotAfter = number (field (fields (fields der))),
       KeyUsage = 5,
       ExtKeyUsage = [ExtKeyUsageServerAuth] \<rparr>"

definition demo_der :: "x509_Certificate \<Rightarrow> bytes" where
  "demo_der c =
     digits (nat (SerialNumber c)) @ '','' @ digits (nat (NotBefore c)) @ '','' @
     digits (nat (NotAfter c)) @ '','' @ pkix_Name.CommonName (Subject c)"

definition first_block :: "bytes \<Rightarrow> bytes" where
  "first_block bs = takeWhile (\<lambda>c. c \<noteq> CHR '';'') (drop 12 bs)"

definition is_cert_pem :: "bytes \<Rightarrow> bool" where
  "is_cert_pem bs = (take 12 bs = ''CERTIFICATE|'' \<and> first_block bs \<noteq> [])"

definition demo_pair :: "bytes \<Rightarrow> bytes \<Rightarrow> error + tls_Certificate" where
  "demo_pair c k =
     (if is_cert_pem c \<and> k = ''RSA PRIVATE KEY|k''
      then Inr \<lparr> Certificate = [first_block c], PrivateKey = RSA (demo_key 0) \<rparr>
      else Inl (LibError ''tls: failed to find any PEM data''))"

definition demo_verify :: "x509_Certificate \<Rightarrow> VerifyOptions \<Rightarrow> error option" where
  "demo_verify c opts =
     (if Roots opts = [] then Some (LibError ''x509: certificate signed by unknown authority'')
      else if CurrentTime opts < NotBefore c \<or> NotAfter c < CurrentTime opts
        then Some (LibError ''x509: certificate has expired or is not yet valid'')
      else if DNSName opts \<noteq> [] \<and> DNSName opts \<notin> set (x509_Certificate.DNSNames c)
        then Some (LibError ''x509: certificate is not valid for the name'')
      else None)"

definition demo_ca :: "world \<Rightarrow> cert_Config \<Rightarrow> x509_Certificate" where
  "demo_ca w cfg =
     \<lparr> Subject = \<lparr> pkix_Name.CommonName = cert_Config.CommonName cfg,
                   pkix_Name.Organization = [] \<rparr>,
       x509_Certificate.DNSNames = [cert_Config.CommonName cfg],
       IPAddresses = [],
       SerialNumber = 0,
       NotBefore = clock w,
       NotAfter = clock w + 315360000000000000,
       KeyUsage = 5,
       ExtKeyUsage = [ExtKeyUsageServerAuth] \<rparr>"

definition demo :: "world env" where
  "demo =
     \<lparr> time_Now = (\<lambda>w. (clock w, w)),
       cryptorand_Int =
         (\<lambda>w m. if m \<le> 0 then (Inl (LibError ''crypto/rand: argument to Int is <= 0''), w)
                 else (case entropy w of
                         [] \<Rightarrow> (Inl (LibError ''EOF''), w)
                       | r # rs \<Rightarrow> (Inr (r mod m), w\<lparr> entropy := rs \<rparr>))),
       pkiutil_NewPrivateKey =
         (\<lambda>w. case entropy w of
                 [] \<Rightarrow> (Inl (LibError ''EOF''), w)
               | r # rs \<Rightarrow> (Inr (RSA (demo_key r)), w\<lparr> entropy := rs \<rparr>)),
       x509_MarshalPKCS1PrivateKey = (\<lambda>k. ''k''),
       pem_EncodeToMemory = (\<lambda>b. Type b @ ''|'' @ Bytes b),
       pem_Decode =
         (\<lambda>bs. if is_cert_pem bs
                then Some \<lparr> Type = ''CERTIFICATE'', Headers = [], Bytes = first_block bs \<rparr>
                else None),
       pkiutil_EncodeCertPEM = (\<lambda>c. ''CERTIFICATE|'' @ demo_der c),
       tls_X509KeyPair = demo_pair,
       AppendCertsFromPEM =
         (\<lambda>pool bs. if is_cert_pem bs then (pool @ [demo_cert (first_block bs)], True)
                     else (pool, False)),
       x509_ParseCertificate =
         (\<lambda>der. if der = [] then Inl (LibError ''x509: malformed certificate'')
                 else Inr (demo_cert der)),
       x509_Verify = demo_verify,
       keyutil_ParsePrivateKeyPEM =
         (\<lambda>bs. if bs = ''RSA PRIVATE KEY|k'' then Inr (RSA (demo_key 0))
                else Inl (LibError ''data does not contain a valid private key'')),
       cert_ParseCertsPEM =
         (\<lambda>bs. if is_cert_pem bs \<and> CHR '';'' \<notin> set bs then Inr [demo_cert (first_block bs)]
                else Inl (LibError ''x509: malformed certificate'')),
       cert_NewSelfSignedCACert = (\<lambda>w cfg k. (Inr (demo_ca w cfg), w)),
       x509_CreateCertificate = (\<lambda>w tmpl parent pub priv. (Inr (demo_der tmpl), w)) \<rparr>"

text \<open>
  The store: \<open>Get\<close> makes a new object of the stored bundle, \<open>Set\<close> stores one. During
  an outage both fail; \<open>outage\<close> is the number of \<open>Get\<close> calls the outage still lasts.
\<close>

definition demo_store :: "world CertificateAccess" where
  "demo_store =
     \<lparr> Get = (\<lambda>w h. if 0 < outage w
                    then (Inl (LibError ''store unavailable''), w\<lparr> outage := outage w - 1 \<rparr>, h)
                    else (case secret w of
                            None \<Rightarrow> (Inr None, w, h)
                          | Some i \<Rightarrow> (Inr (Some (length h)), w, h @ [i]))),
       Set = (\<lambda>w h p. if 0 < outage w then (Some (LibError ''store unavailable''), w)
                      else (None, w\<lparr> secret := (case p of None \<Rightarrow> None | Some a \<Rightarrow> heap_get h a) \<rparr>)) \<rparr>"

text \<open>
  The files: a key pair loads when both files are there and match; a watch is added
  while the number of watches is below the limit of the system.
\<close>

definition demo_fs :: "world fsys" where
  "demo_fs =
     \<lparr> tls_LoadX509KeyPair =
         (\<lambda>w cp kp. case (map_of (files w) cp, map_of (files w) kp) of
                       (Some c, Some k) \<Rightarrow> (demo_pair c k, w)
                     | _ \<Rightarrow> (Inl (LibError ''open: no such file or directory''), w)),
       fsnotify_NewWatcher = (\<lambda>w. (Inr 0, w)),
       Watcher_Add =
         (\<lambda>w wt f. if length (watched w) < watch_limit w
                     then (None, w\<lparr> watched := watched w @ [f] \<rparr>)
                     else (Some (LibError ''no space left on device''), w)),
       Watcher_Close = (\<lambda>w wt. (None, w\<lparr> watched := [] \<rparr>)) \<rparr>"

definition cfg0 :: Config where
  "cfg0 = \<lparr> Config.CommonName = ''svc'', DnsNames = [''svc'', ''svc.local''],
            Validity = 24 * Hour, Rest = Hour \<rparr>"

definition bundle0 :: info where
  "bundle0 =
     \<lparr> cert = Some ''CERTIFICATE|11,1000,86400000001000,svc'',
       key = Some ''RSA PRIVATE KEY|k'',
       cacert = Some ''CERTIFICATE|0,1000,315360000000001000,webhook-certmgmt-ca:svc'',
       cakey = Some ''RSA PRIVATE KEY|k'' \<rparr>"

definition world0 :: world where
  "world0 = \<lparr> clock = 1000, entropy = [7, 9, 11, 13, 15, 17], outage = 0, secret = None,
          files = [(''tls.crt'', ''CERTIFICATE|11,1000,86400000001000,svc''),
                   (''tls.key'', ''RSA PRIVATE KEY|k'')],
          watch_limit = 8, watched = [] \<rparr>"

definition world1 :: world where
  "world1 = world0\<lparr> entropy := [13, 15, 17] \<rparr>"


text \<open>
  Two bundles with no server certificate: one with the CA of \<open>bundle0\<close>, one whose CA
  certificate text goes on with a second block that is not a certificate.
\<close>

definition bundle_nocert :: info where
  "bundle_nocert = bundle0\<lparr> cert := None, key := None \<rparr>"

definition bundle_junk :: info where
  "bundle_junk =
     \<lparr> cert = None, key = None,
       cacert = Some ''CERTIFICATE|0,1000,315360000000001000,webhook-certmgmt-ca:svc;JUNK'',
       cakey = Some ''RSA PRIVATE KEY|k'' \<rparr>"

definition pair0 :: tls_Certificate where
  "pair0 = \<lparr> Certificate = [''11,1000,86400000001000,svc''], PrivateKey = RSA (demo_key 0) \<rparr>"

definition this0 :: "world AccessSource" where
  "this0 = \<lparr> AccessSource.currentCert = Some pair0, config = cfg0, access = demo_store \<rparr>"

definition cw0 :: CertWatcher where
  "cw0 = \<lparr> CertWatcher.currentCert = Some pair0, watcher = Some 0,
            certPath = ''tls.crt'', keyPath = ''tls.key'' \<rparr>"

section \<open>An example library that keeps the contract\<close>

text \<open>
  A second library on the same world, closer to X.509: the encoding of a certificate
  holds the serial number, the two times in whole seconds, the key usage, the extended
  key usages, the common name and the DNS names, and
  \<^verbatim>\<open>x509.CreateCertificate\<close> refuses a template it cannot encode. The text of a
  certificate is \<open>serial,notBefore,notAfter,keyUsage,extKeyUsages,commonName\<close>, each DNS
  name after one more comma; the times are counts of seconds, the extended key usages
  one letter each. The clock, the random source and the PEM encoder are those of
  \<open>demo\<close>. Signatures are not modelled: every certificate counts as signed by the root
  it is verified against.
\<close>

definition digit :: "nat \<Rightarrow> char" where
  "digit k = ''0123456789'' ! k"

fun decimal :: "nat \<Rightarrow> string" where
  "decimal n = (if n < 10 then [digit n] else decimal (n div 10) @ [digit (n mod 10)])"

declare decimal.simps [simp del]

fun usage_char :: "ExtKeyUsage \<Rightarrow> char" where
  "usage_char ExtKeyUsageAny = CHR ''a''"
| "usage_char ExtKeyUsageServerAuth = CHR ''s''"
| "usage_char ExtKeyUsageClientAuth = CHR ''c''"
| "usage_char ExtKeyUsageCodeSigning = CHR ''o''"

definition char_usage :: "char \<Rightarrow> ExtKeyUsage" where
  "char_usage c =
     (if c = CHR ''s'' then ExtKeyUsageServerAuth
      else if c = CHR ''c'' then ExtKeyUsageClientAuth
      else if c = CHR ''o'' then ExtKeyUsageCodeSigning
      else ExtKeyUsageAny)"

definition join_names :: "string list \<Rightarrow> string" where
  "join_names ns = concat (map (\<lambda>n. CHR '','' # n) ns)"

function split_names :: "string \<Rightarrow> string list" where
  "split_names [] = []"
| "split_names (c # cs) = field cs # split_names (dropWhile (\<lambda>c. c \<noteq> CHR '','') cs)"
  by pat_completeness auto
termination
  by (relation "measure length") (auto simp: length_dropWhile_le less_Suc_eq_le)

definition pki_der :: "x509_Certificate \<Rightarrow> bytes" where
  "pki_der c =
     decimal (nat (SerialNumber c)) @ '','' @
     decimal (nat (NotBefore c div 1000000000)) @ '','' @
     decimal (nat (NotAfter c div 1000000000)) @ '','' @
     decimal (unat (KeyUsage c)) @ '','' @
     map usage_char (ExtKeyUsage c) @ '','' @
     pkix_Name.CommonName (Subject c) @ join_names (x509_Certificate.DNSNames c)"

definition pki_cert :: "bytes \<Rightarrow> x509_Certificate" where
  "pki_cert der =
     \<lparr> Subject = \<lparr> pkix_Name.CommonName = field (fields (fields (fields (fields (fields der))))),
                   pkix_Name.Organization = [] \<rparr>,
       x509_Certificate.DNSNames =
         split_names (dropWhile (\<lambda>c. c \<noteq> CHR '','') (fields (fields (fields (fields (fields der)))))),
       IPAddresses = [],
       SerialNumber = number (field der),
       NotBefore = number (field (fields der)) * 1000000000,
       NotAfter = number (field (fields (fields der))) * 1000000000,
       KeyUsage = word_of_int (number (field (fields (fields (fields der))))),
       ExtKeyUsage = map char_usage (field (fields (fields (fields (fields der))))) \<rparr>"

text \<open>The certificates the library can encode.\<close>

definition encodable :: "x509_Certificate \<Rightarrow> bool" where
  "encodable c =
     (0 \<le> SerialNumber c \<and> 0 \<le> NotBefore c \<and> 0 \<le> NotAfter c
      \<and> CHR '','' \<notin> set (pkix_Name.CommonName (Subject c))
      \<and> list_all (\<lambda>n. CHR '','' \<notin> set n) (x509_Certificate.DNSNames c))"

definition pki_pem :: "bytes \<Rightarrow> bool" where
  "pki_pem bs = (take 12 bs = ''CERTIFICATE|'' \<and> drop 12 bs \<noteq> [])"

definition pki_verify :: "x509_Certificate \<Rightarrow> VerifyOptions \<Rightarrow> error option" where
  "pki_verify c opts =
     (if Roots opts = [] then Some (LibError ''x509: certificate signed by unknown authority'')
      else if \<not> in_validity c (CurrentTime opts)
        then Some (LibError ''x509: certificate has expired or is not yet valid'')
      else if list_all (\<lambda>root. \<not> in_validity root (CurrentTime opts)) (Roots opts)
        then Some (LibError ''x509: certificate has expired or is not yet valid'')
      else if ExtKeyUsage c \<noteq> [] \<and> ExtKeyUsageServerAuth \<notin> set (ExtKeyUsage c)
              \<and> ExtKeyUsageAny \<notin> set (ExtKeyUsage c)
        then Some (LibError ''x509: certificate specifies an incompatible key usage'')
      else if DNSName opts \<noteq> [] \<and> DNSName opts \<notin> set (x509_Certificate.DNSNames c)
        then Some (LibError ''x509: certificate is not valid for the name'')
      else None)"

text \<open>
  The certificate of \<^verbatim>\<open>cert.NewSelfSignedCACert\<close>: serial number 0, valid for ten years
  of 365 days from now, for signing certificates (bit 5 of the key usage).
\<close>

definition pki_ca :: "world \<Rightarrow> cert_Config \<Rightarrow> x509_Certificate" where
  "pki_ca w cfg =
     \<lparr> Subject = \<lparr> pkix_Name.CommonName = cert_Config.CommonName cfg,
                   pkix_Name.Organization = [] \<rparr>,
       x509_Certificate.DNSNames = [],
       IPAddresses = [],
       SerialNumber = 0,
       NotBefore = whole_seconds (clock w),
       NotAfter = whole_seconds (clock w) + 315360000000000000,
       KeyUsage = 37,
       ExtKeyUsage = [] \<rparr>"

definition pki :: "world env" where
  "pki =
     demo\<lparr> x509_MarshalPKCS1PrivateKey := (\<lambda>k. decimal (nat (D k))),
           pem_Decode :=
             (\<lambda>bs. if pki_pem bs
                    then Some \<lparr> Type = ''CERTIFICATE'', Headers = [], Bytes = drop 12 bs \<rparr>
                    else None),
           pkiutil_EncodeCertPEM := (\<lambda>c. ''CERTIFICATE|'' @ pki_der c),
           tls_X509KeyPair :=
             (\<lambda>c k. if pki_pem c \<and> take 16 k = ''RSA PRIVATE KEY|'' \<and> drop 16 k \<noteq> []
                     then Inr \<lparr> Certificate = [drop 12 c],
                                PrivateKey = RSA (demo_key (number (drop 16 k))) \<rparr>
                     else Inl (LibError ''tls: failed to find any PEM data'')),
           AppendCertsFromPEM :=
             (\<lambda>pool bs. if pki_pem bs then (pool @ [pki_cert (drop 12 bs)], True)
                         else (pool, False)),
           x509_ParseCertificate :=
             (\<lambda>der. if der = [] then Inl (LibError ''x509: malformed certificate'')
                     else Inr (pki_cert der)),
           x509_Verify := pki_verify,
           keyutil_ParsePrivateKeyPEM :=
             (\<lambda>bs. if take 16 bs = ''RSA PRIVATE KEY|'' \<and> drop 16 bs \<noteq> []
                    then Inr (RSA (demo_key (number (drop 16 bs))))
                    else Inl (LibError ''data does not contain a valid private key'')),
           cert_ParseCertsPEM :=
             (\<lambda>bs. if pki_pem bs then Inr [pki_cert (drop 12 bs)]
                    else Inl (LibError ''x509: malformed certificate'')),
           cert_NewSelfSignedCACert :=
             (\<lambda>w cfg k. if encodable (pki_ca w cfg) then (Inr (pki_ca w cfg), w)
                         else (Inl (LibError ''x509: cannot encode the certificate''), w)),
           x509_CreateCertificate :=
             (\<lambda>w tmpl parent pub priv.
                if encodable tmpl then (Inr (pki_der tmpl), w)
                else (Inl (LibError ''x509: cannot encode the certificate''), w)) \<rparr>"

text \<open>The CA certificate made at the time of \<open>world0\<close> for \<open>cfg0\<close>.\<close>

definition ca1 :: x509_Certificate where
  "ca1 = pki_ca world0 (ca_Config cfg0)"

text \<open>
  The bundle of a first issuance in \<open>world0\<close> for \<open>cfg0\<close>, and the one for
  \<open>cfg_short\<close>, whose certificate is valid for a minute.
\<close>

definition bundle1 :: info where
  "bundle1 =
     \<lparr> cert = Some ''CERTIFICATE|11,0,86400,5,s,svc,svc,svc.local'',
       key = Some ''RSA PRIVATE KEY|9'',
       cacert = Some ''CERTIFICATE|0,0,315360000,37,,webhook-certmgmt-ca:svc'',
       cakey = Some ''RSA PRIVATE KEY|7'' \<rparr>"




section \<open>Evaluating the model on the example library\<close>

lemma digits_numeral:
  "digits (numeral k) =
     (case dropWhile (\<lambda>c. c = CHR ''0'')
             (map (\<lambda>i. ''0123456789'' ! (numeral k div 10 ^ i mod 10))
                [18, 17, 16, 15, 14, 13, 12, 11, 10, 9, 8, 7, 6, 5, 4, 3, 2, 1, 0]) of
        [] \<Rightarrow> ''0''
      | ds \<Rightarrow> ds)"
  by (rule digits_def)

lemma digits_zero: "digits 0 = ''0''"
  by (simp add: digits_def)

lemmas demo_simps = demo_def demo_pair_def demo_verify_def demo_ca_def demo_cert_def demo_der_def
  is_cert_pem_def first_block_def number_def field_def fields_def demo_key_def digits_numeral digits_zero

lemmas engine_defs = UpdateCertificate_def copy_old_def IsValid_def Valid_def regenerate_def
  reuse_ca_def parse_ca_key_def generate_ca_def ca_Config_def issue_server_def NewSignedCert_def certTmpl_def
  server_Config_def newPrivateKey_def encodePrivateKeyPEM_def heap_get_def len_def bytes_of_def
  NewCertPool_def Time_Add_def MaxInt64_def RSAPrivateKeyBlockType_def Hour_def Minute_def Second_def Nanosecond_def


section \<open>The second example library keeps the contract\<close>

text \<open>
  The decimal text of a number reads back as the number and holds no comma, so the
  fields of an encoding split where they were joined.
\<close>

lemma of_char_digit: "k < 10 \<Longrightarrow> (of_char (digit k) :: int) = 48 + int k"
proof -
  assume "k < 10"
  then have "k \<in> {0, 1, 2, 3, 4, 5, 6, 7, 8, 9}" by auto
  then show ?thesis by (auto simp: digit_def)
qed

lemma digit_not_comma: "k < 10 \<Longrightarrow> digit k \<noteq> CHR '',''"
proof
  assume k: "k < 10" and "digit k = CHR '',''"
  then have "(of_char (digit k) :: int) = of_char (CHR '','')" by simp
  with k show False by (simp add: of_char_digit)
qed

lemma number_snoc: "number (ds @ [c]) = 10 * number ds + (of_char c - 48)"
  by (simp add: number_def)

lemma number_decimal: "number (decimal n) = int n"
proof (induction n rule: decimal.induct)
  case (1 n)
  show ?case
  proof (cases "n < 10")
    case True
    then show ?thesis by (subst decimal.simps) (simp add: number_def of_char_digit)
  next
    case False
    with 1 have "number (decimal (n div 10)) = int (n div 10)" by simp
    with False show ?thesis
      by (subst decimal.simps) (simp add: number_snoc of_char_digit zdiv_int zmod_int)
  qed
qed

lemma comma_notin_decimal: "CHR '','' \<notin> set (decimal n)"
proof (induction n rule: decimal.induct)
  case (1 n)
  show ?case
  proof (cases "n < 10")
    case True
    then show ?thesis using digit_not_comma [of n] by (subst decimal.simps) auto
  next
    case False
    with 1 have "CHR '','' \<notin> set (decimal (n div 10))" by simp
    with False show ?thesis
      using digit_not_comma [of "n mod 10"] by (subst decimal.simps) auto
  qed
qed


lemma field_comma:
  "CHR '','' \<notin> set a \<Longrightarrow> field (a @ CHR '','' # r) = a"
  by (induction a) (auto simp: field_def)

lemma fields_comma:
  "CHR '','' \<notin> set a \<Longrightarrow> fields (a @ CHR '','' # r) = r"
  by (induction a) (auto simp: fields_def)

lemma field_last: "CHR '','' \<notin> set a \<Longrightarrow> field a = a"
  by (induction a) (auto simp: field_def)

lemma dropWhile_last: "CHR '','' \<notin> set a \<Longrightarrow> dropWhile (\<lambda>c. c \<noteq> CHR '','') a = []"
  by (induction a) auto

lemma dropWhile_comma:
  "CHR '','' \<notin> set a \<Longrightarrow> dropWhile (\<lambda>c. c \<noteq> CHR '','') (a @ CHR '','' # r) = CHR '','' # r"
  by (induction a) auto

lemma split_join_names:
  "list_all (\<lambda>n. CHR '','' \<notin> set n) ns \<Longrightarrow> split_names (join_names ns) = ns"
proof (induction ns)
  case Nil
  show ?case by (simp add: join_names_def)
next
  case (Cons n ns)
  then have n: "CHR '','' \<notin> set n" and ih: "split_names (join_names ns) = ns"
    by simp_all
  show ?case
  proof (cases ns)
    case Nil
    with n show ?thesis
      by (simp add: join_names_def field_last dropWhile_last)
  next
    case (Cons m ms)
    then have j: "join_names ns = CHR '','' # m @ join_names ms"
      by (simp add: join_names_def)
    have "join_names (n # ns) = CHR '','' # n @ join_names ns"
      by (simp add: join_names_def)
    with n ih show ?thesis
      by (simp add: j field_comma dropWhile_comma)
  qed
qed

lemma field_names:
  "CHR '','' \<notin> set a \<Longrightarrow> field (a @ join_names ns) = a"
  by (cases ns) (simp_all add: join_names_def field_last field_comma)

lemma dropWhile_names:
  "CHR '','' \<notin> set a \<Longrightarrow> dropWhile (\<lambda>c. c \<noteq> CHR '','') (a @ join_names ns) = join_names ns"
  by (cases ns) (simp_all add: join_names_def dropWhile_last dropWhile_comma)

lemma char_usage_char: "char_usage (usage_char u) = u"
  by (cases u) (simp_all add: char_usage_def)

lemma usage_chars: "map (char_usage \<circ> usage_char) us = us"
  by (induction us) (simp_all add: char_usage_char)

lemma comma_notin_usages: "CHR '','' \<notin> usage_char ` set us"
proof
  assume "CHR '','' \<in> usage_char ` set us"
  then obtain u where "usage_char u = CHR '',''" by auto
  then show False by (cases u) simp_all
qed

text \<open>
  The certificate read back from the encoding of a certificate that can be encoded: the
  two times are cut to whole seconds, the other fields that the encoding holds are kept.
\<close>

lemma pki_cert_der:
  assumes "encodable c"
  shows "pki_cert (pki_der c) =
     \<lparr> Subject = \<lparr> pkix_Name.CommonName = pkix_Name.CommonName (Subject c),
                   pkix_Name.Organization = [] \<rparr>,
       x509_Certificate.DNSNames = x509_Certificate.DNSNames c,
       IPAddresses = [],
       SerialNumber = SerialNumber c,
       NotBefore = whole_seconds (NotBefore c),
       NotAfter = whole_seconds (NotAfter c),
       KeyUsage = KeyUsage c,
       ExtKeyUsage = ExtKeyUsage c \<rparr>"
proof -
  from assms have cn: "CHR '','' \<notin> set (pkix_Name.CommonName (Subject c))"
    and names: "list_all (\<lambda>n. CHR '','' \<notin> set n) (x509_Certificate.DNSNames c)"
    and pos: "0 \<le> SerialNumber c" "0 \<le> NotBefore c" "0 \<le> NotAfter c"
    by (simp_all add: encodable_def)
  have secs: "t div 1000000000 * 1000000000 = whole_seconds t" for t
    by (simp add: whole_seconds_def minus_mod_eq_div_mult)
  from pos have ku: "0 \<le> NotBefore c div 1000000000" "0 \<le> NotAfter c div 1000000000"
    by (simp_all add: pos_imp_zdiv_nonneg_iff)
  show ?thesis
    unfolding pki_cert_def pki_der_def
    by (simp add: field_comma fields_comma comma_notin_decimal comma_notin_usages number_decimal
        field_names dropWhile_names split_join_names usage_chars cn names pos secs ku
       )
qed


lemma pki_cert_der_again:
  assumes "encodable c"
  shows "pki_cert (pki_der (pki_cert (pki_der c))) = pki_cert (pki_der c)"
proof -
  have ws: "whole_seconds (whole_seconds t) = whole_seconds t" for t
    by (simp add: whole_seconds_def)
  have nn: "0 \<le> t \<Longrightarrow> 0 \<le> whole_seconds t" for t
    by (simp add: whole_seconds_def minus_mod_eq_div_mult pos_imp_zdiv_nonneg_iff)
  from assms have "encodable (pki_cert (pki_der c))"
    by (simp add: pki_cert_der [OF assms]) (simp add: encodable_def nn)
  from pki_cert_der [OF this] show ?thesis
    by (simp add: pki_cert_der [OF assms] ws)
qed


lemma pki_der_not_empty: "pki_der c \<noteq> []"
  by (simp add: pki_der_def)


lemma pki_Int_contract: "Int_contract pki"
  by (auto simp: Int_contract_def pki_def demo_def split: if_splits list.splits)

lemma pki_CreateCertificate_contract: "CreateCertificate_contract pki"
  unfolding CreateCertificate_contract_def
proof (intro allI impI)
  fix w tmpl parent pub priv der w' c
  assume "x509_CreateCertificate pki w tmpl parent pub priv = (Inr der, w')
          \<and> x509_ParseCertificate pki der = Inr c"
  then have enc: "encodable tmpl" and c: "c = pki_cert (pki_der tmpl)"
    by (auto simp: pki_def pki_der_not_empty split: if_splits)
  show "SerialNumber c = SerialNumber tmpl
          \<and> NotBefore c = whole_seconds (NotBefore tmpl)
          \<and> NotAfter c = whole_seconds (NotAfter tmpl)
          \<and> KeyUsage c = KeyUsage tmpl
          \<and> ExtKeyUsage c = ExtKeyUsage tmpl
          \<and> pkix_Name.CommonName (Subject c) = pkix_Name.CommonName (Subject tmpl)
          \<and> x509_Certificate.DNSNames c = x509_Certificate.DNSNames tmpl"
    by (simp add: c pki_cert_der [OF enc])
qed



lemma pki_Parse_contract: "Parse_contract pki"
  by (auto simp: Parse_contract_def in_whole_seconds_def pki_def pki_cert_def pki_ca_def whole_seconds_def
      split: if_splits)

text \<open>Evaluation: the decimal text of a numeral.\<close>

lemma decimal_numeral:
  "decimal (numeral k) =
     (if numeral k < (10::nat) then [digit (numeral k)]
      else decimal (numeral k div 10) @ [digit (numeral k mod 10)])"
  by (rule decimal.simps)

lemma decimal_small: "decimal 0 = ''0''" "decimal 1 = ''1''" "decimal (Suc 0) = ''1''"
  by (simp_all add: decimal.simps [of 0] decimal.simps [of 1] decimal.simps [of "Suc 0"] digit_def)

lemmas pki_simps = pki_def demo_def pki_pem_def pki_verify_def pki_ca_def pki_cert_def pki_der_def
  encodable_def in_validity_def whole_seconds_def number_def field_def fields_def demo_key_def
  join_names_def decimal_numeral decimal_small digit_def char_usage_def
  KeyUsageKeyEncipherment_def KeyUsageDigitalSignature_def


section \<open>Properties of the certificate engine\<close>

lemma copy_old_Some:
  "a < length h \<Longrightarrow> copy_old h (Some a) = Inr (h ! a)"
  by (simp add: copy_old_def heap_get_def)

lemma IsValid_True_clock:
  "IsValid env w i dnsname duration = (True, w') \<Longrightarrow> w' = snd (time_Now env w)"
  by (auto simp: IsValid_def Valid_def split: if_splits sum.splits prod.splits option.splits)

text \<open>
  C1. A non-nil input bundle that passes \<^verbatim>\<open>IsValid\<close> with the first configured DNS name
  and the lookahead \<^verbatim>\<open>Rest\<close> is returned as it is: the result is the input address
  (so the caller's comparison \<^verbatim>\<open>info != new\<close> is false, no change), the heap and with
  it the four fields of the bundle are untouched, and nothing is issued: the world is
  the one the validation left, whose only effect is one reading of the clock.
\<close>

theorem UpdateCertificate_valid_unchanged:
  assumes "a < length h"
    and "DnsNames cfg = dnsname # rest"
    and "IsValid env w (h ! a) dnsname (Rest cfg) = (True, w')"
  shows "UpdateCertificate env w h (Some a) cfg = (Inr (Some a), w', h)
         \<and> w' = snd (time_Now env w)"
  using assms IsValid_True_clock [OF assms(3)]
  by (simp add: UpdateCertificate_def copy_old_Some)

text \<open>
  The bundle \<open>bundle0\<close> is valid for the name \<open>svc\<close> in the example library, and
  \<^verbatim>\<open>UpdateCertificate\<close> returns its address and leaves world and heap as they were.
\<close>

theorem UpdateCertificate_valid_unchanged_witness:
  "IsValid demo world0 ([bundle0] ! 0) ''svc'' (Rest cfg0) = (True, world0)
   \<and> UpdateCertificate demo world0 [bundle0] (Some 0) cfg0 = (Inr (Some 0), world0, [bundle0])"
proof -
  have len: "(0::nat) < length [bundle0]" by simp
  have names: "DnsNames cfg0 = ''svc'' # [''svc.local'']" by (simp add: cfg0_def)
  have valid: "IsValid demo world0 ([bundle0] ! 0) ''svc'' (Rest cfg0) = (True, world0)"
    by (simp add: engine_defs demo_simps cfg0_def bundle0_def world0_def)
  from UpdateCertificate_valid_unchanged [OF len names valid] valid show ?thesis by simp
qed

subsection \<open>Regeneration, stage by stage\<close>

lemma UpdateCertificate_unfold:
  assumes "copy_old h old = Inr new" and "DnsNames cfg = d # ds"
  shows "UpdateCertificate env w h old cfg =
     (case IsValid env w new d (Rest cfg) of
        (True, w1) \<Rightarrow> (Inr old, w1, h)
      | (False, w1) \<Rightarrow>
          (case regenerate env w1 cfg new of
             (Inl err, w2) \<Rightarrow> (Inl err, w2, h)
           | (Inr new1, w2) \<Rightarrow> (Inr (Some (length h)), w2, h @ [new1])))"
  using assms by (simp add: UpdateCertificate_def split: prod.split bool.split)


lemma issue_server_Inr:
  assumes "issue_server env w cfg new caKey caCert = (Inr i, w')"
  shows "\<exists>newKey newCert w1.
           newPrivateKey env w = (Inr newKey, w1)
           \<and> NewSignedCert env w1 (server_Config cfg) newKey caCert caKey (Validity cfg) = (Inr newCert, w')
           \<and> i = new\<lparr> key := Some (encodePrivateKeyPEM env newKey),
                       cert := Some (pkiutil_EncodeCertPEM env newCert) \<rparr>"
  using assms
  by (auto simp: issue_server_def split: prod.splits sum.splits)

lemma generate_ca_Inr:
  assumes "generate_ca env w cfg new = (Inr (new1, caKey, caCert), w')"
  shows "\<exists>w1. newPrivateKey env w = (Inr caKey, w1)
           \<and> cert_NewSelfSignedCACert env w1 (ca_Config cfg) caKey = (Inr caCert, w')
           \<and> new1 = new\<lparr> cakey := Some (encodePrivateKeyPEM env caKey),
                          cacert := Some (pkiutil_EncodeCertPEM env caCert) \<rparr>"
  using assms
  by (auto simp: generate_ca_def split: prod.splits sum.splits)

lemma reuse_ca_ok:
  assumes "reuse_ca env w new = (Inr (ok, caKey, caCert), w1)"
  shows "(cacert new \<noteq> None \<and> ok) = ca_acceptable env w new"
    and "ok \<Longrightarrow> caKey \<noteq> None \<and> caCert \<noteq> None"
  using assms
  by (auto simp: reuse_ca_def ca_acceptable_def parse_ca_key_def
      split: if_splits prod.splits sum.splits list.splits signer.splits)


lemma regenerate_Inr:
  assumes "regenerate env w cfg new = (Inr i, w')"
  shows "if ca_acceptable env w new
         then \<exists>caKey caCert. issue_server env (snd (reuse_ca env w new)) cfg new caKey caCert = (Inr i, w')
         else \<exists>new1 caKey caCert w2.
                generate_ca env (snd (reuse_ca env w new)) cfg new = (Inr (new1, caKey, caCert), w2)
                \<and> issue_server env w2 cfg new1 caKey caCert = (Inr i, w')"
proof -
  obtain r w1 where reuse: "reuse_ca env w new = (r, w1)"
    by (cases "reuse_ca env w new") auto
  with assms obtain ok caKey caCert where r: "r = Inr (ok, caKey, caCert)"
    by (cases r) (auto simp: regenerate_def)
  note ok = reuse_ca_ok [OF reuse [unfolded r]]
  show ?thesis
  proof (cases "ca_acceptable env w new")
    case True
    with ok have "cacert new \<noteq> None" "ok" "caKey \<noteq> None" "caCert \<noteq> None" by auto
    with assms reuse r True show ?thesis
      by (fastforce simp: regenerate_def)
  next
    case False
    with ok have "cacert new = None \<or> \<not> ok" by auto
    with assms reuse r False show ?thesis
      by (fastforce simp: regenerate_def split: prod.splits sum.splits)
  qed
qed

lemma NewSignedCert_Inr:
  assumes "NewSignedCert env w c k caCert caKey duration = (Inr newCert, w')"
  shows "\<exists>serial w1 now w2 der.
           cryptorand_Int env w MaxInt64 = (Inr serial, w1)
           \<and> time_Now env w1 = (now, w2)
           \<and> x509_CreateCertificate env w2 (certTmpl c serial caCert now duration)
                caCert (PublicKey k) caKey = (Inr der, w')
           \<and> x509_ParseCertificate env der = Inr newCert"
  using assms
  by (auto simp: NewSignedCert_def split: prod.splits sum.splits if_splits)

lemma reuse_ca_cert:
  assumes "reuse_ca env w new = (Inr (ok, k, Some c), w1)"
  shows "\<exists>certs. cert_ParseCertsPEM env (bytes_of (cacert new)) = Inr (c # certs)"
  using assms
  by (auto simp: reuse_ca_def split: if_splits prod.splits sum.splits list.splits)

lemma regenerate_Inr_ca:
  assumes "regenerate env w cfg new = (Inr i, w')"
  shows "\<exists>caKey caCert w1 new1.
           issue_server env w1 cfg new1 caKey caCert = (Inr i, w')
           \<and> ((new1 = new
                 \<and> (\<exists>certs. cert_ParseCertsPEM env (bytes_of (cacert new)) = Inr (caCert # certs)))
                \<or> (cacert new1 = Some (pkiutil_EncodeCertPEM env caCert)
                    \<and> (\<exists>wa. cert_NewSelfSignedCACert env wa (ca_Config cfg) caKey = (Inr caCert, w1))))"
proof -
  obtain r w1 where reuse: "reuse_ca env w new = (r, w1)"
    by (cases "reuse_ca env w new") auto
  with assms obtain ok k c where r: "r = Inr (ok, k, c)"
    by (cases r) (auto simp: regenerate_def)
  show ?thesis
  proof (cases "cacert new = None \<or> \<not> ok")
    case True
    with assms reuse r obtain new1 caKey caCert w2 where
      gen: "generate_ca env w1 cfg new = (Inr (new1, caKey, caCert), w2)"
      and iss: "issue_server env w2 cfg new1 caKey caCert = (Inr i, w')"
      by (auto simp: regenerate_def split: prod.splits sum.splits)
    from generate_ca_Inr [OF gen] obtain wa where
      "cert_NewSelfSignedCACert env wa (ca_Config cfg) caKey = (Inr caCert, w2)"
      and "cacert new1 = Some (pkiutil_EncodeCertPEM env caCert)"
      by auto
    with iss show ?thesis
      by blast
  next
    case False
    with assms reuse r obtain caKey caCert where kc: "k = Some caKey" "c = Some caCert"
      and iss: "issue_server env w1 cfg new caKey caCert = (Inr i, w')"
      by (auto simp: regenerate_def split: option.splits)
    from reuse_ca_cert [OF reuse [unfolded r kc]] iss show ?thesis
      by blast
  qed
qed

subsection \<open>A first issuance\<close>






subsection \<open>Keeping or replacing the CA\<close>

text \<open>
  C5, as stated, fails: the CA of \<open>bundle_junk\<close> is present, passes the self-check with
  the lookahead of five days, and its key parses as an RSA key, and still the
  regeneration replaces both CA fields. The CA certificate text is one that
  \<^verbatim>\<open>cert.ParseCertsPEM\<close> rejects (line 121 sets \<^verbatim>\<open>ok\<close> to false then): it parses every
  block of the text, where the self-check reads the first certificate only.
\<close>

theorem CA_regenerated_counterexample:
  "cacert bundle_junk \<noteq> None
   \<and> fst (Valid demo world0 (cakey bundle_junk) (cacert bundle_junk) (cacert bundle_junk) []
            (5 * Hour * 24))
   \<and> keyutil_ParsePrivateKeyPEM demo (bytes_of (cakey bundle_junk)) = Inr (RSA (demo_key 0))
   \<and> UpdateCertificate demo world0 [bundle_junk] (Some 0) cfg0 = (Inr (Some 1), world1, [bundle_junk, bundle0])
   \<and> cacert bundle0 \<noteq> cacert bundle_junk"
proof (intro conjI)
  show "cacert bundle_junk \<noteq> None"
    by (simp add: bundle_junk_def)
  show "fst (Valid demo world0 (cakey bundle_junk) (cacert bundle_junk) (cacert bundle_junk) []
            (5 * Hour * 24))"
    by (simp add: engine_defs demo_simps bundle_junk_def world0_def)
  show "keyutil_ParsePrivateKeyPEM demo (bytes_of (cakey bundle_junk)) = Inr (RSA (demo_key 0))"
    by (simp add: demo_def bytes_of_def bundle_junk_def)
  show "UpdateCertificate demo world0 [bundle_junk] (Some 0) cfg0 = (Inr (Some 1), world1, [bundle_junk, bundle0])"
    by (simp add: engine_defs demo_simps cfg0_def bundle_junk_def bundle0_def world0_def world1_def)
  show "cacert bundle0 \<noteq> cacert bundle_junk"
    by (simp add: bundle0_def bundle_junk_def)
qed

text \<open>
  C5, amended. Whenever \<^verbatim>\<open>UpdateCertificate\<close> regenerates the server certificate (the
  working copy is not valid and a bundle is returned), the result is a new bundle with a
  new server key and certificate, and: if the CA certificate is present, valid against
  itself with the lookahead of five days, its key parses from PEM as an RSA key and the
  CA certificate parses with \<^verbatim>\<open>cert.ParseCertsPEM\<close>, the CA certificate and CA key
  bytes of the result are those of the input; otherwise both are the encodings of a new
  CA key and of a new self-signed CA certificate, made before the server certificate,
  which is signed with them.
\<close>

theorem regenerate_keeps_or_replaces_CA:
  assumes "copy_old h old = Inr new"
    and "DnsNames cfg = d # ds"
    and "IsValid env w new d (Rest cfg) = (False, w1)"
    and "UpdateCertificate env w h old cfg = (Inr r, w', h')"
  shows "\<exists>i. r = Some (length h) \<and> h' = h @ [i]
           \<and> (\<exists>newKey newCert.
                 key i = Some (encodePrivateKeyPEM env newKey)
                 \<and> cert i = Some (pkiutil_EncodeCertPEM env newCert))
           \<and> (if ca_acceptable env w1 new
               then cacert i = cacert new \<and> cakey i = cakey new
               else \<exists>caKey caCert wa wb newKey wc newCert.
                      newPrivateKey env (snd (reuse_ca env w1 new)) = (Inr caKey, wa)
                      \<and> cert_NewSelfSignedCACert env wa (ca_Config cfg) caKey = (Inr caCert, wb)
                      \<and> cakey i = Some (encodePrivateKeyPEM env caKey)
                      \<and> cacert i = Some (pkiutil_EncodeCertPEM env caCert)
                      \<and> newPrivateKey env wb = (Inr newKey, wc)
                      \<and> NewSignedCert env wc (server_Config cfg) newKey caCert caKey (Validity cfg)
                           = (Inr newCert, w')
                      \<and> cert i = Some (pkiutil_EncodeCertPEM env newCert))"
proof -
  from assms obtain i where regen: "regenerate env w1 cfg new = (Inr i, w')"
    and r: "r = Some (length h)" and h': "h' = h @ [i]"
    by (auto simp: UpdateCertificate_unfold [OF assms(1,2)] split: prod.splits sum.splits)
  show ?thesis
  proof (cases "ca_acceptable env w1 new")
    case True
    with regenerate_Inr [OF regen] obtain caKey caCert where
      iss: "issue_server env (snd (reuse_ca env w1 new)) cfg new caKey caCert = (Inr i, w')"
      by auto
    from issue_server_Inr [OF iss] obtain newKey newCert where
      i: "i = new\<lparr> key := Some (encodePrivateKeyPEM env newKey),
                     cert := Some (pkiutil_EncodeCertPEM env newCert) \<rparr>"
      by auto
    from True r h' show ?thesis
      by (auto simp: i)
  next
    case False
    with regenerate_Inr [OF regen] obtain new1 caKey caCert w2 where
      gen: "generate_ca env (snd (reuse_ca env w1 new)) cfg new = (Inr (new1, caKey, caCert), w2)"
      and iss: "issue_server env w2 cfg new1 caKey caCert = (Inr i, w')"
      by auto
    from generate_ca_Inr [OF gen] obtain wa where
      k: "newPrivateKey env (snd (reuse_ca env w1 new)) = (Inr caKey, wa)"
      and c: "cert_NewSelfSignedCACert env wa (ca_Config cfg) caKey = (Inr caCert, w2)"
      and new1: "new1 = new\<lparr> cakey := Some (encodePrivateKeyPEM env caKey),
                          cacert := Some (pkiutil_EncodeCertPEM env caCert) \<rparr>"
      by auto
    from issue_server_Inr [OF iss] obtain newKey newCert wc where
      nk: "newPrivateKey env w2 = (Inr newKey, wc)"
      and sc: "NewSignedCert env wc (server_Config cfg) newKey caCert caKey (Validity cfg) = (Inr newCert, w')"
      and i: "i = new1\<lparr> key := Some (encodePrivateKeyPEM env newKey),
                       cert := Some (pkiutil_EncodeCertPEM env newCert) \<rparr>"
      by auto
    have "\<exists>caKey caCert wa wb newKey wc newCert.
                      newPrivateKey env (snd (reuse_ca env w1 new)) = (Inr caKey, wa)
                      \<and> cert_NewSelfSignedCACert env wa (ca_Config cfg) caKey = (Inr caCert, wb)
                      \<and> cakey i = Some (encodePrivateKeyPEM env caKey)
                      \<and> cacert i = Some (pkiutil_EncodeCertPEM env caCert)
                      \<and> newPrivateKey env wb = (Inr newKey, wc)
                      \<and> NewSignedCert env wc (server_Config cfg) newKey caCert caKey (Validity cfg)
                           = (Inr newCert, w')
                      \<and> cert i = Some (pkiutil_EncodeCertPEM env newCert)"
      using k c nk sc by (intro exI conjI) (assumption | simp add: i new1)+
    moreover have "\<exists>newKey newCert.
                 key i = Some (encodePrivateKeyPEM env newKey)
                 \<and> cert i = Some (pkiutil_EncodeCertPEM env newCert)"
      by (auto simp: i)
    ultimately show ?thesis
      using False r h' by simp
  qed
qed

text \<open>
  The bundle \<open>bundle_nocert\<close> has an acceptable CA and no server certificate: the result
  keeps the CA bytes.
\<close>

theorem regenerate_keeps_or_replaces_CA_witness:
  "copy_old [bundle_nocert] (Some 0) = Inr bundle_nocert
   \<and> IsValid demo world0 bundle_nocert ''svc'' (Rest cfg0) = (False, world0)
   \<and> ca_acceptable demo world0 bundle_nocert
   \<and> (\<exists>i w'. UpdateCertificate demo world0 [bundle_nocert] (Some 0) cfg0
               = (Inr (Some 1), w', [bundle_nocert, i])
            \<and> cacert i = cacert bundle_nocert \<and> cakey i = cakey bundle_nocert)"
proof -
  have copy: "copy_old [bundle_nocert] (Some 0) = Inr bundle_nocert"
    by (simp add: copy_old_def heap_get_def)
  have names: "DnsNames cfg0 = ''svc'' # [''svc.local'']"
    by (simp add: cfg0_def)
  have invalid: "IsValid demo world0 bundle_nocert ''svc'' (Rest cfg0) = (False, world0)"
    by (simp add: IsValid_def bundle_nocert_def)
  have acc: "ca_acceptable demo world0 bundle_nocert"
    by (simp add: ca_acceptable_def engine_defs demo_simps bundle_nocert_def bundle0_def world0_def)
  have run: "UpdateCertificate demo world0 [bundle_nocert] (Some 0) cfg0
      = (Inr (Some 1), world0\<lparr> entropy := [11, 13, 15, 17] \<rparr>,
         [bundle_nocert, bundle0\<lparr> cert := Some ''CERTIFICATE|9,1000,86400000001000,svc'' \<rparr>])"
    by (simp add: engine_defs demo_simps cfg0_def bundle_nocert_def bundle0_def world0_def)
  from regenerate_keeps_or_replaces_CA [OF copy names invalid run] acc
  obtain i where "[bundle_nocert, bundle0\<lparr> cert := Some ''CERTIFICATE|9,1000,86400000001000,svc'' \<rparr>]
        = [bundle_nocert] @ [i]"
    and "cacert i = cacert bundle_nocert \<and> cakey i = cakey bundle_nocert"
    by auto
  with copy invalid acc run show ?thesis
    by auto
qed

subsection \<open>The server certificate\<close>

lemma KeyUsage_bits:
  "bit (KeyUsageKeyEncipherment OR KeyUsageDigitalSignature) n \<longleftrightarrow> n = 0 \<or> n = 2"
  unfolding KeyUsageKeyEncipherment_def KeyUsageDigitalSignature_def bit_or_iff
    bit_push_bit_iff bit_1_iff
  by auto

text \<open>
  C6, as stated, fails in two points. The serial number is not always positive:
  \<^verbatim>\<open>cryptorand.Int(cryptorand.Reader, max)\<close> returns a number from 0 up to, not
  including, \<^verbatim>\<open>max\<close>, so 0 is a possible serial number; here the random source gives
  0 for the serial number, and the certificate that \<^verbatim>\<open>NewSignedCert\<close> returns has the
  serial number 0. And \<^verbatim>\<open>NotAfter\<close> is not the issuance time plus the validity when
  that instant is not in whole seconds: the certificate is issued at the time 1000 (in
  nanoseconds) for 24 hours, and the \<^verbatim>\<open>NotAfter\<close> of the certificate returned is
  86400 seconds, 1000 nanoseconds earlier. The first run is the whole
  \<^verbatim>\<open>UpdateCertificate\<close>, the second its call of \<^verbatim>\<open>NewSignedCert\<close>.
\<close>

theorem server_certificate_counterexample:
  "UpdateCertificate pki (world0\<lparr> entropy := [7, 9, 0] \<rparr>) [] None cfg0
     = (Inr (Some 0), world0\<lparr> entropy := [] \<rparr>,
        [bundle1\<lparr> cert := Some ''CERTIFICATE|0,0,86400,5,s,svc,svc,svc.local'' \<rparr>])
   \<and> NewSignedCert pki (world0\<lparr> entropy := [0] \<rparr>) (server_Config cfg0) (demo_key 9) ca1
        (demo_key 7) (Validity cfg0)
      = (Inr (pki_cert ''0,0,86400,5,s,svc,svc,svc.local''), world0\<lparr> entropy := [] \<rparr>)
   \<and> SerialNumber (pki_cert ''0,0,86400,5,s,svc,svc,svc.local'') = 0
   \<and> \<not> 0 < SerialNumber (pki_cert ''0,0,86400,5,s,svc,svc,svc.local'')
   \<and> time_Now pki (world0\<lparr> entropy := [] \<rparr>) = (1000, world0\<lparr> entropy := [] \<rparr>)
   \<and> 1000 + sint (Validity cfg0) = 86400000001000
   \<and> NotAfter (pki_cert ''0,0,86400,5,s,svc,svc,svc.local'') = 86400000000000"
proof (intro conjI)
  show "UpdateCertificate pki (world0\<lparr> entropy := [7, 9, 0] \<rparr>) [] None cfg0
     = (Inr (Some 0), world0\<lparr> entropy := [] \<rparr>,
        [bundle1\<lparr> cert := Some ''CERTIFICATE|0,0,86400,5,s,svc,svc,svc.local'' \<rparr>])"
    by (simp add: engine_defs pki_simps cfg0_def bundle1_def world0_def)
  show "NewSignedCert pki (world0\<lparr> entropy := [0] \<rparr>) (server_Config cfg0) (demo_key 9) ca1
        (demo_key 7) (Validity cfg0)
      = (Inr (pki_cert ''0,0,86400,5,s,svc,svc,svc.local''), world0\<lparr> entropy := [] \<rparr>)"
    by (simp add: engine_defs pki_simps cfg0_def world0_def ca1_def)
  show "SerialNumber (pki_cert ''0,0,86400,5,s,svc,svc,svc.local'') = 0"
    by (simp add: pki_simps)
  then show "\<not> 0 < SerialNumber (pki_cert ''0,0,86400,5,s,svc,svc,svc.local'')"
    by simp
  show "time_Now pki (world0\<lparr> entropy := [] \<rparr>) = (1000, world0\<lparr> entropy := [] \<rparr>)"
    by (simp add: pki_def demo_def world0_def)
  show "1000 + sint (Validity cfg0) = 86400000001000"
    by (simp add: cfg0_def Hour_def Minute_def Second_def Nanosecond_def)
  show "NotAfter (pki_cert ''0,0,86400,5,s,svc,svc,svc.local'') = 86400000000000"
    by (simp add: pki_simps)
qed

text \<open>
  The certificate of a regeneration, under the contract of the libraries. The CA
  certificate that signs it was parsed by a library function, so its \<^verbatim>\<open>NotBefore\<close> is
  in whole seconds and the certificate issued has exactly this \<^verbatim>\<open>NotBefore\<close>.
\<close>

lemma regenerate_certificate:
  assumes rand: "Int_contract env"
    and x509: "CreateCertificate_contract env"
    and parse: "Parse_contract env"
    and run: "regenerate env w cfg new = (Inr i, w')"
  shows "\<exists>caKey caCert newKey w1 serial w2 now w3 newCert.
           ((cacert i = cacert new
              \<and> (\<exists>certs. cert_ParseCertsPEM env (bytes_of (cacert new)) = Inr (caCert # certs)))
             \<or> (cacert i = Some (pkiutil_EncodeCertPEM env caCert)
                 \<and> (\<exists>wa wb. cert_NewSelfSignedCACert env wa (ca_Config cfg) caKey = (Inr caCert, wb))))
           \<and> NewSignedCert env w1 (server_Config cfg) newKey caCert caKey (Validity cfg) = (Inr newCert, w')
           \<and> cryptorand_Int env w1 MaxInt64 = (Inr serial, w2)
           \<and> time_Now env w2 = (now, w3)
           \<and> cert i = Some (pkiutil_EncodeCertPEM env newCert)
           \<and> SerialNumber newCert = serial \<and> 0 \<le> serial \<and> serial < 2 ^ 63 - 1
           \<and> NotBefore newCert = NotBefore caCert
           \<and> NotAfter newCert = whole_seconds (now + sint (Validity cfg))
           \<and> KeyUsage newCert = KeyUsageKeyEncipherment OR KeyUsageDigitalSignature
           \<and> (\<forall>n. bit (KeyUsage newCert) n \<longleftrightarrow> n = 0 \<or> n = 2)
           \<and> ExtKeyUsage newCert = [ExtKeyUsageServerAuth]
           \<and> pkix_Name.CommonName (Subject newCert) = Config.CommonName cfg
           \<and> x509_Certificate.DNSNames newCert = DnsNames cfg"
proof -
  from regenerate_Inr_ca [OF run] obtain caKey caCert wk new1 where
    iss: "issue_server env wk cfg new1 caKey caCert = (Inr i, w')"
    and origin: "(new1 = new
                 \<and> (\<exists>certs. cert_ParseCertsPEM env (bytes_of (cacert new)) = Inr (caCert # certs)))
                \<or> (cacert new1 = Some (pkiutil_EncodeCertPEM env caCert)
                    \<and> (\<exists>wa. cert_NewSelfSignedCACert env wa (ca_Config cfg) caKey = (Inr caCert, wk)))"
    by blast
  from origin parse have secs: "whole_seconds (NotBefore caCert) = NotBefore caCert"
    unfolding Parse_contract_def in_whole_seconds_def
    by (metis list.set_intros(1))
  from issue_server_Inr [OF iss] obtain newKey newCert w1 where
    sc: "NewSignedCert env w1 (server_Config cfg) newKey caCert caKey (Validity cfg) = (Inr newCert, w')"
    and i: "i = new1\<lparr> key := Some (encodePrivateKeyPEM env newKey),
                   cert := Some (pkiutil_EncodeCertPEM env newCert) \<rparr>"
    by auto
  from origin have origin': "(cacert i = cacert new
              \<and> (\<exists>certs. cert_ParseCertsPEM env (bytes_of (cacert new)) = Inr (caCert # certs)))
             \<or> (cacert i = Some (pkiutil_EncodeCertPEM env caCert)
                 \<and> (\<exists>wa wb. cert_NewSelfSignedCACert env wa (ca_Config cfg) caKey = (Inr caCert, wb)))"
    by (auto simp: i)
  from NewSignedCert_Inr [OF sc] obtain serial w2 now w3 der where
    ri: "cryptorand_Int env w1 MaxInt64 = (Inr serial, w2)"
    and tn: "time_Now env w2 = (now, w3)"
    and cc: "x509_CreateCertificate env w3 (certTmpl (server_Config cfg) serial caCert now (Validity cfg))
                caCert (PublicKey newKey) caKey = (Inr der, w')"
    and pc: "x509_ParseCertificate env der = Inr newCert"
    by auto
  from rand ri have range: "0 \<le> serial \<and> serial < 2 ^ 63 - 1"
    by (auto simp: Int_contract_def MaxInt64_def)
  from x509 cc pc have fields: "SerialNumber newCert = serial"
    "NotBefore newCert = NotBefore caCert"
    "NotAfter newCert = whole_seconds (now + sint (Validity cfg))"
    "KeyUsage newCert = KeyUsageKeyEncipherment OR KeyUsageDigitalSignature"
    "ExtKeyUsage newCert = [ExtKeyUsageServerAuth]"
    "pkix_Name.CommonName (Subject newCert) = Config.CommonName cfg"
    "x509_Certificate.DNSNames newCert = DnsNames cfg"
    unfolding CreateCertificate_contract_def
    by (fastforce simp: certTmpl_def server_Config_def Time_Add_def secs)+
  have bits: "\<forall>n. bit (KeyUsage newCert) n \<longleftrightarrow> n = 0 \<or> n = 2"
    by (simp add: fields KeyUsage_bits)
  have ci: "cert i = Some (pkiutil_EncodeCertPEM env newCert)"
    by (simp add: i)
  from origin' sc ri tn ci range fields bits show ?thesis
    by blast
qed

text \<open>
  C6, amended. Every server certificate that \<^verbatim>\<open>UpdateCertificate\<close> issues (when the
  working copy is not valid and a bundle is returned) is the certificate that
  \<^verbatim>\<open>NewSignedCert\<close> returns, and this certificate has: a serial number that is the
  random number \<open>r\<close> read for it, with \<open>0 \<le> r < 2 ^ 63 - 1\<close> (zero included); the
  \<^verbatim>\<open>NotBefore\<close> of the signing CA certificate, which is the CA certificate of the
  bundle returned (the first certificate parsed from the CA bytes that were kept, or the
  new self-signed one); a \<^verbatim>\<open>NotAfter\<close> that is the time read at issuance plus the
  configured validity, cut to whole seconds, for any validity; the key usage key
  encipherment and digital signature (bits 2 and 0 and no other); the extended key usage
  server authentication; and the common name and the DNS names of the configuration.
  The libraries are assumed to keep their contract (\<open>Int_contract\<close>,
  \<open>CreateCertificate_contract\<close>, \<open>Parse_contract\<close>).
\<close>

theorem UpdateCertificate_server_certificate:
  assumes rand: "Int_contract env"
    and x509: "CreateCertificate_contract env"
    and parse: "Parse_contract env"
    and copy: "copy_old h old = Inr new"
    and names: "DnsNames cfg = d # ds"
    and invalid: "IsValid env w new d (Rest cfg) = (False, wv)"
    and run: "UpdateCertificate env w h old cfg = (Inr r, w', h')"
  shows "\<exists>i caKey caCert newKey w1 serial w2 now w3 newCert.
           r = Some (length h) \<and> h' = h @ [i]
           \<and> ((cacert i = cacert new
                \<and> (\<exists>certs. cert_ParseCertsPEM env (bytes_of (cacert new)) = Inr (caCert # certs)))
               \<or> (cacert i = Some (pkiutil_EncodeCertPEM env caCert)
                   \<and> (\<exists>wa wb. cert_NewSelfSignedCACert env wa (ca_Config cfg) caKey = (Inr caCert, wb))))
           \<and> NewSignedCert env w1 (server_Config cfg) newKey caCert caKey (Validity cfg) = (Inr newCert, w')
           \<and> cryptorand_Int env w1 MaxInt64 = (Inr serial, w2)
           \<and> time_Now env w2 = (now, w3)
           \<and> cert i = Some (pkiutil_EncodeCertPEM env newCert)
           \<and> SerialNumber newCert = serial \<and> 0 \<le> serial \<and> serial < 2 ^ 63 - 1
           \<and> NotBefore newCert = NotBefore caCert
           \<and> NotAfter newCert = whole_seconds (now + sint (Validity cfg))
           \<and> KeyUsage newCert = KeyUsageKeyEncipherment OR KeyUsageDigitalSignature
           \<and> (\<forall>n. bit (KeyUsage newCert) n \<longleftrightarrow> n = 0 \<or> n = 2)
           \<and> ExtKeyUsage newCert = [ExtKeyUsageServerAuth]
           \<and> pkix_Name.CommonName (Subject newCert) = Config.CommonName cfg
           \<and> x509_Certificate.DNSNames newCert = DnsNames cfg"
proof -
  from invalid run obtain i where regen: "regenerate env wv cfg new = (Inr i, w')"
    and r: "r = Some (length h)" and h': "h' = h @ [i]"
    by (auto simp: UpdateCertificate_unfold [OF copy names] split: prod.splits sum.splits)
  from regenerate_certificate [OF rand x509 parse regen] r h' show ?thesis
    by blast
qed

text \<open>
  In the library \<open>pki\<close> a certificate that \<^verbatim>\<open>NewSignedCert\<close> returns is the one read
  back from its encoding.
\<close>

lemma pki_NewSignedCert_cert:
  assumes "NewSignedCert pki w c k ca cak d = (Inr x, w')"
  shows "pki_cert (pki_der x) = x"
proof -
  from NewSignedCert_Inr [OF assms] obtain serial now w2 der where
    cc: "x509_CreateCertificate pki w2 (certTmpl c serial ca now d) ca (PublicKey k) cak = (Inr der, w')"
    and pc: "x509_ParseCertificate pki der = Inr x"
    by blast
  from cc have enc: "encodable (certTmpl c serial ca now d)"
    and der: "der = pki_der (certTmpl c serial ca now d)"
    by (auto simp: pki_def split: if_splits)
  from pc have "x = pki_cert (pki_der (certTmpl c serial ca now d))"
    by (simp add: pki_def der pki_der_not_empty)
  with pki_cert_der_again [OF enc] show ?thesis
    by simp
qed

text \<open>
  The library \<open>pki\<close> keeps the contract. In it the first issuance at the time 1000 gives
  \<open>bundle1\<close>: its certificate has the serial number 11, the \<^verbatim>\<open>NotBefore\<close> 0 of the
  CA certificate and the \<^verbatim>\<open>NotAfter\<close> 86400 seconds.
\<close>

theorem UpdateCertificate_server_certificate_witness:
  "Int_contract pki \<and> CreateCertificate_contract pki \<and> Parse_contract pki
   \<and> copy_old [] None = Inr \<lparr> cert = None, key = None, cacert = None, cakey = None \<rparr>
   \<and> DnsNames cfg0 = ''svc'' # [''svc.local'']
   \<and> IsValid pki world0 \<lparr> cert = None, key = None, cacert = None, cakey = None \<rparr> ''svc'' (Rest cfg0)
       = (False, world0)
   \<and> UpdateCertificate pki world0 [] None cfg0 = (Inr (Some 0), world1, [bundle1])
   \<and> (\<exists>caKey caCert newKey w1 serial w2 now w3 newCert.
           NewSignedCert pki w1 (server_Config cfg0) newKey caCert caKey (Validity cfg0) = (Inr newCert, world1)
           \<and> cryptorand_Int pki w1 MaxInt64 = (Inr serial, w2)
           \<and> time_Now pki w2 = (now, w3)
           \<and> cert bundle1 = Some (pkiutil_EncodeCertPEM pki newCert)
           \<and> newCert = pki_cert ''11,0,86400,5,s,svc,svc,svc.local''
           \<and> SerialNumber newCert = serial \<and> serial = 11
           \<and> NotBefore newCert = NotBefore caCert \<and> NotBefore caCert = 0
           \<and> NotAfter newCert = whole_seconds (now + sint (Validity cfg0))
           \<and> NotAfter newCert = 86400000000000
           \<and> KeyUsage newCert = KeyUsageKeyEncipherment OR KeyUsageDigitalSignature
           \<and> ExtKeyUsage newCert = [ExtKeyUsageServerAuth]
           \<and> pkix_Name.CommonName (Subject newCert) = ''svc''
           \<and> x509_Certificate.DNSNames newCert = [''svc'', ''svc.local''])"
proof -
  let ?empty = "\<lparr> cert = None, key = None, cacert = None, cakey = None \<rparr>"
  have copy: "copy_old [] None = Inr ?empty"
    by (simp add: copy_old_def)
  have dns0: "DnsNames cfg0 = ''svc'' # [''svc.local'']"
    by (simp add: cfg0_def)
  have invalid: "IsValid pki world0 ?empty ''svc'' (Rest cfg0) = (False, world0)"
    by (simp add: IsValid_def)
  have run: "UpdateCertificate pki world0 [] None cfg0 = (Inr (Some 0), world1, [bundle1])"
    by (simp add: engine_defs pki_simps cfg0_def bundle1_def world0_def world1_def)
  from UpdateCertificate_server_certificate
    [OF pki_Int_contract pki_CreateCertificate_contract pki_Parse_contract copy dns0 invalid run]
  obtain i caKey caCert newKey w1 serial w2 now w3 newCert where
    heap: "[bundle1] = [] @ [i]"
    and sc: "NewSignedCert pki w1 (server_Config cfg0) newKey caCert caKey (Validity cfg0) = (Inr newCert, world1)"
    and ri: "cryptorand_Int pki w1 MaxInt64 = (Inr serial, w2)"
    and tn: "time_Now pki w2 = (now, w3)"
    and ci': "cert i = Some (pkiutil_EncodeCertPEM pki newCert)"
    and sn: "SerialNumber newCert = serial"
    and nb: "NotBefore newCert = NotBefore caCert"
    and na: "NotAfter newCert = whole_seconds (now + sint (Validity cfg0))"
    and ku: "KeyUsage newCert = KeyUsageKeyEncipherment OR KeyUsageDigitalSignature"
    and eku: "ExtKeyUsage newCert = [ExtKeyUsageServerAuth]"
    and cn: "pkix_Name.CommonName (Subject newCert) = Config.CommonName cfg0"
    and dns: "x509_Certificate.DNSNames newCert = DnsNames cfg0"
    by blast
  from heap ci' have ci: "cert bundle1 = Some (pkiutil_EncodeCertPEM pki newCert)"
    by simp
  then have "pki_der newCert = ''11,0,86400,5,s,svc,svc,svc.local''"
    by (simp add: pki_def bundle1_def)
  with pki_NewSignedCert_cert [OF sc] have pin: "newCert = pki_cert ''11,0,86400,5,s,svc,svc,svc.local''"
    by simp
  have vals: "SerialNumber (pki_cert ''11,0,86400,5,s,svc,svc,svc.local'') = 11"
    "NotBefore (pki_cert ''11,0,86400,5,s,svc,svc,svc.local'') = 0"
    "NotAfter (pki_cert ''11,0,86400,5,s,svc,svc,svc.local'') = 86400000000000"
    by (simp_all add: pki_simps)
  from sn nb vals have concrete: "serial = 11" "NotBefore caCert = 0" "NotAfter newCert = 86400000000000"
    by (simp_all add: pin)
  from cn dns have names: "pkix_Name.CommonName (Subject newCert) = ''svc''"
    "x509_Certificate.DNSNames newCert = [''svc'', ''svc.local'']"
    by (simp_all add: cfg0_def)
  have "\<exists>caKey caCert newKey w1 serial w2 now w3 newCert.
           NewSignedCert pki w1 (server_Config cfg0) newKey caCert caKey (Validity cfg0) = (Inr newCert, world1)
           \<and> cryptorand_Int pki w1 MaxInt64 = (Inr serial, w2)
           \<and> time_Now pki w2 = (now, w3)
           \<and> cert bundle1 = Some (pkiutil_EncodeCertPEM pki newCert)
           \<and> newCert = pki_cert ''11,0,86400,5,s,svc,svc,svc.local''
           \<and> SerialNumber newCert = serial \<and> serial = 11
           \<and> NotBefore newCert = NotBefore caCert \<and> NotBefore caCert = 0
           \<and> NotAfter newCert = whole_seconds (now + sint (Validity cfg0))
           \<and> NotAfter newCert = 86400000000000
           \<and> KeyUsage newCert = KeyUsageKeyEncipherment OR KeyUsageDigitalSignature
           \<and> ExtKeyUsage newCert = [ExtKeyUsageServerAuth]
           \<and> pkix_Name.CommonName (Subject newCert) = ''svc''
           \<and> x509_Certificate.DNSNames newCert = [''svc'', ''svc.local'']"
    using sc ri tn ci pin sn concrete nb na ku eku names by blast
  with copy dns0 invalid run pki_Int_contract pki_CreateCertificate_contract pki_Parse_contract
  show ?thesis
    by (intro conjI)
qed

section \<open>Properties of the watchers\<close>

lemma AccessSource_ReadCertificate_error:
  assumes "AccessSource_ReadCertificate env this w h tr = (Some err, this', w', h', tr')"
  shows "this' = this"
  using assms
  by (auto simp: AccessSource_ReadCertificate_def split: prod.splits sum.splits option.splits if_splits)

lemma CertWatcher_ReadCertificate_error:
  assumes "CertWatcher_ReadCertificate fs cw v tr = (Some err, cw', v', tr')"
  shows "cw' = cw"
  using assms
  by (auto simp: CertWatcher_ReadCertificate_def split: prod.splits sum.splits)

text \<open>
  C2. A failed refresh leaves the certificate in memory as it was. For the polling
  watcher: the error of each stage (the store's \<^verbatim>\<open>Get\<close>, \<^verbatim>\<open>UpdateCertificate\<close>, the
  store's \<^verbatim>\<open>Set\<close>, the parse of the key pair) is what \<^verbatim>\<open>ReadCertificate\<close> returns, and
  whenever \<^verbatim>\<open>ReadCertificate\<close> returns an error \<^verbatim>\<open>currentCert\<close> is unchanged, so
  \<^verbatim>\<open>GetCertificate\<close> returns what it returned before. For the file watcher the same
  holds with the one stage it has, loading the key pair from the two files.
\<close>

theorem failed_refresh_keeps_currentCert:
  "(\<forall>err this' w' h' tr'.
      AccessSource_ReadCertificate env this w h tr = (Some err, this', w', h', tr') \<longrightarrow>
        AccessSource.currentCert this' = AccessSource.currentCert this
        \<and> fst (AccessSource_GetCertificate this' hello t) = fst (AccessSource_GetCertificate this hello t))
   \<and> (\<forall>err cw' v' tr'.
      CertWatcher_ReadCertificate fs cw v trc = (Some err, cw', v', tr') \<longrightarrow>
        CertWatcher.currentCert cw' = CertWatcher.currentCert cw
        \<and> fst (CertWatcher_GetCertificate cw' hello t) = fst (CertWatcher_GetCertificate cw hello t))
   \<and> (\<forall>e w1 h1. Get (access this) w h = (Inl e, w1, h1) \<longrightarrow>
        fst (AccessSource_ReadCertificate env this w h tr) = Some e)
   \<and> (\<forall>info w1 h1 e w2 h2.
        Get (access this) w h = (Inr info, w1, h1)
        \<and> UpdateCertificate env w1 h1 info (config this) = (Inl e, w2, h2) \<longrightarrow>
        fst (AccessSource_ReadCertificate env this w h tr) = Some e)
   \<and> (\<forall>info w1 h1 new w2 h2 e w3.
        Get (access this) w h = (Inr info, w1, h1)
        \<and> UpdateCertificate env w1 h1 info (config this) = (Inr new, w2, h2)
        \<and> (info \<noteq> new \<or> AccessSource.currentCert this = None)
        \<and> Set (access this) w2 h2 new = (Some e, w3) \<longrightarrow>
        fst (AccessSource_ReadCertificate env this w h tr) = Some e)
   \<and> (\<forall>info w1 h1 a w2 h2 w3 i e.
        Get (access this) w h = (Inr info, w1, h1)
        \<and> UpdateCertificate env w1 h1 info (config this) = (Inr (Some a), w2, h2)
        \<and> (info \<noteq> Some a \<or> AccessSource.currentCert this = None)
        \<and> Set (access this) w2 h2 (Some a) = (None, w3)
        \<and> heap_get h2 a = Some i
        \<and> tls_X509KeyPair env (bytes_of (cert i)) (bytes_of (key i)) = Inl e \<longrightarrow>
        fst (AccessSource_ReadCertificate env this w h tr) = Some e)
   \<and> (\<forall>e v1. tls_LoadX509KeyPair fs v (certPath cw) (keyPath cw) = (Inl e, v1) \<longrightarrow>
        fst (CertWatcher_ReadCertificate fs cw v trc) = Some e)"
proof (intro conjI allI impI)
  fix err this' w' h' tr'
  assume run: "AccessSource_ReadCertificate env this w h tr = (Some err, this', w', h', tr')"
  then have same: "this' = this" by (rule AccessSource_ReadCertificate_error)
  show "AccessSource.currentCert this' = AccessSource.currentCert this"
    by (simp add: same)
  show "fst (AccessSource_GetCertificate this' hello t) = fst (AccessSource_GetCertificate this hello t)"
    by (simp add: same)
next
  fix err cw' v' tr'
  assume run: "CertWatcher_ReadCertificate fs cw v trc = (Some err, cw', v', tr')"
  then have same: "cw' = cw" by (rule CertWatcher_ReadCertificate_error)
  show "CertWatcher.currentCert cw' = CertWatcher.currentCert cw"
    by (simp add: same)
  show "fst (CertWatcher_GetCertificate cw' hello t) = fst (CertWatcher_GetCertificate cw hello t)"
    by (simp add: same)
qed (auto simp: AccessSource_ReadCertificate_def CertWatcher_ReadCertificate_def)

text \<open>
  With the store unavailable, and with the two files missing, the refresh fails and the
  watchers \<open>this0\<close> and \<open>cw0\<close> still hold the certificate \<open>pair0\<close>.
\<close>

theorem failed_refresh_keeps_currentCert_witness:
  "AccessSource_ReadCertificate demo this0 (world0\<lparr> outage := 1 \<rparr>) [] []
     = (Some (LibError ''store unavailable''), this0, world0, [], [CallGet])
   \<and> fst (AccessSource_GetCertificate this0 () []) = (Some pair0, None)
   \<and> CertWatcher_ReadCertificate demo_fs cw0 (world0\<lparr> files := [] \<rparr>) []
     = (Some (LibError ''open: no such file or directory''), cw0, world0\<lparr> files := [] \<rparr>,
        [CallLoadX509KeyPair])
   \<and> fst (CertWatcher_GetCertificate cw0 () []) = (Some pair0, None)"
proof -
  have get: "Get (access this0) (world0\<lparr> outage := 1 \<rparr>) []
               = (Inl (LibError ''store unavailable''), world0, [])"
    by (simp add: this0_def demo_store_def world0_def)
  have load: "tls_LoadX509KeyPair demo_fs (world0\<lparr> files := [] \<rparr>) (certPath cw0) (keyPath cw0)
               = (Inl (LibError ''open: no such file or directory''), world0\<lparr> files := [] \<rparr>)"
    by (simp add: cw0_def demo_fs_def world0_def)
  note inst = failed_refresh_keeps_currentCert
    [of demo this0 "world0\<lparr> outage := 1 \<rparr>" "[]" "[]" "()" "[]" demo_fs cw0 "world0\<lparr> files := [] \<rparr>" "[]"]
  note unchanged1 = inst [THEN conjunct1, rule_format]
  note unchanged2 = inst [THEN conjunct2, THEN conjunct1, rule_format]
  note get_fails = inst [THEN conjunct2, THEN conjunct2, THEN conjunct1, rule_format]
  note load_fails = inst [THEN conjunct2, THEN conjunct2, THEN conjunct2, THEN conjunct2,
      THEN conjunct2, THEN conjunct2, rule_format]
  have r1: "fst (AccessSource_ReadCertificate demo this0 (world0\<lparr> outage := 1 \<rparr>) [] [])
      = Some (LibError ''store unavailable'')"
    by (rule get_fails [OF get])
  have r2: "fst (CertWatcher_ReadCertificate demo_fs cw0 (world0\<lparr> files := [] \<rparr>) [])
      = Some (LibError ''open: no such file or directory'')"
    by (rule load_fails [OF load])
  obtain t1 v1 h1 c1 where run1: "AccessSource_ReadCertificate demo this0 (world0\<lparr> outage := 1 \<rparr>) [] []
      = (Some (LibError ''store unavailable''), t1, v1, h1, c1)"
    using r1 by (cases "AccessSource_ReadCertificate demo this0 (world0\<lparr> outage := 1 \<rparr>) [] []") auto
  obtain t2 v2 c2 where run2: "CertWatcher_ReadCertificate demo_fs cw0 (world0\<lparr> files := [] \<rparr>) []
      = (Some (LibError ''open: no such file or directory''), t2, v2, c2)"
    using r2 by (cases "CertWatcher_ReadCertificate demo_fs cw0 (world0\<lparr> files := [] \<rparr>) []") auto
  have k1: "fst (AccessSource_GetCertificate t1 () []) = fst (AccessSource_GetCertificate this0 () [])"
    using unchanged1 [OF run1] by simp
  have k2: "fst (CertWatcher_GetCertificate t2 () []) = fst (CertWatcher_GetCertificate cw0 () [])"
    using unchanged2 [OF run2] by simp
  show ?thesis
    using k1 k2
    by (simp add: AccessSource_ReadCertificate_def CertWatcher_ReadCertificate_def
        AccessSource_GetCertificate_def CertWatcher_GetCertificate_def this0_def cw0_def
        demo_store_def demo_fs_def world0_def)
qed

text \<open>
  C3, as stated, fails: with no certificate loaded, \<^verbatim>\<open>GetCertificate\<close> of either
  watcher returns a nil certificate and a nil error, not an error. The two watchers here
  are the zero values \<^verbatim>\<open>AccessSource{}\<close> and \<^verbatim>\<open>CertWatcher{}\<close> (the configuration and
  the store play no role).
\<close>

theorem GetCertificate_absent_without_error:
  "fst (AccessSource_GetCertificate
          \<lparr> AccessSource.currentCert = None, config = cfg0, access = demo_store \<rparr> () [])
     = (None, None)
   \<and> fst (CertWatcher_GetCertificate
          \<lparr> CertWatcher.currentCert = None, watcher = None, certPath = [], keyPath = [] \<rparr> () [])
     = (None, None)"
  by (simp add: AccessSource_GetCertificate_def CertWatcher_GetCertificate_def)

text \<open>
  C3, amended. \<^verbatim>\<open>GetCertificate\<close> of either watcher returns the certificate that is
  loaded at the time of the call, under the lock, and its error is always nil: with no
  certificate loaded the result is a nil certificate and a nil error.
\<close>

theorem GetCertificate_current_nil_error:
  "AccessSource_GetCertificate this hello tr
     = ((AccessSource.currentCert this, None), tr @ [CallLock, CallUnlock])
   \<and> CertWatcher_GetCertificate cw hello tr
     = ((CertWatcher.currentCert cw, None), tr @ [CallLock, CallUnlock])"
  by (simp add: AccessSource_GetCertificate_def CertWatcher_GetCertificate_def)

text \<open>
  C7. In a refresh of the polling watcher where \<^verbatim>\<open>Get\<close> and \<^verbatim>\<open>UpdateCertificate\<close>
  succeed: when the bundle returned is the one \<^verbatim>\<open>Get\<close> gave (the comparison
  \<^verbatim>\<open>info != new\<close> is false) and a certificate is loaded, \<^verbatim>\<open>ReadCertificate\<close> returns
  nil having made no further call (no \<^verbatim>\<open>Set\<close>, no parse of the key pair, no lock), the
  watcher, and with it the certificate in memory, is untouched, and the world is the one
  \<^verbatim>\<open>UpdateCertificate\<close> left; and it is this condition that decides: when
  \<^verbatim>\<open>info != new\<close> or no certificate is loaded, \<^verbatim>\<open>Set\<close> is called with the new bundle.
\<close>

theorem ReadCertificate_no_change:
  assumes "Get (access this) w h = (Inr info, w1, h1)"
    and "UpdateCertificate env w1 h1 info (config this) = (Inr new, w2, h2)"
  shows "(\<not> info \<noteq> new \<and> AccessSource.currentCert this \<noteq> None \<longrightarrow>
            AccessSource_ReadCertificate env this w h tr
              = (None, this, w2, h2, tr @ [CallGet, CallUpdateCertificate]))
         \<and> (info \<noteq> new \<or> AccessSource.currentCert this = None \<longrightarrow>
            (\<exists>r this' w3 tr'. AccessSource_ReadCertificate env this w h tr
              = (r, this', w3, h2, tr @ [CallGet, CallUpdateCertificate, CallSet new] @ tr')
              \<and> w3 = snd (Set (access this) w2 h2 new)))"
proof (intro conjI impI)
  assume same: "\<not> info \<noteq> new \<and> AccessSource.currentCert this \<noteq> None"
  then have eq: "new = info"
    by simp
  from same obtain loaded where cur: "AccessSource.currentCert this = Some loaded"
    by auto
  show "AccessSource_ReadCertificate env this w h tr
               = (None, this, w2, h2, tr @ [CallGet, CallUpdateCertificate])"
    using assms by (simp add: AccessSource_ReadCertificate_def eq cur)
next
  assume changed: "info \<noteq> new \<or> AccessSource.currentCert this = None"
  obtain e w3 where set: "Set (access this) w2 h2 new = (e, w3)"
    by (cases "Set (access this) w2 h2 new") auto
  show "\<exists>r this' w3 tr'. AccessSource_ReadCertificate env this w h tr
          = (r, this', w3, h2, tr @ [CallGet, CallUpdateCertificate, CallSet new] @ tr')
          \<and> w3 = snd (Set (access this) w2 h2 new)"
    using changed
    by (auto simp: AccessSource_ReadCertificate_def assms set split: option.split sum.split)
qed

text \<open>
  The store holds the valid bundle \<open>bundle0\<close> and the watcher \<open>this0\<close> holds a
  certificate: the refresh calls \<^verbatim>\<open>Get\<close> and \<^verbatim>\<open>UpdateCertificate\<close> and nothing else.
\<close>

theorem ReadCertificate_no_change_witness:
  "Get (access this0) (world0\<lparr> secret := Some bundle0 \<rparr>) [] = (Inr (Some 0), world0\<lparr> secret := Some bundle0 \<rparr>, [bundle0])
   \<and> UpdateCertificate demo (world0\<lparr> secret := Some bundle0 \<rparr>) [bundle0] (Some 0) (config this0)
       = (Inr (Some 0), world0\<lparr> secret := Some bundle0 \<rparr>, [bundle0])
   \<and> AccessSource.currentCert this0 \<noteq> None
   \<and> AccessSource_ReadCertificate demo this0 (world0\<lparr> secret := Some bundle0 \<rparr>) [] []
       = (None, this0, world0\<lparr> secret := Some bundle0 \<rparr>, [bundle0], [CallGet, CallUpdateCertificate])"
proof -
  let ?w = "world0\<lparr> secret := Some bundle0 \<rparr>"
  have get: "Get (access this0) ?w [] = (Inr (Some 0), ?w, [bundle0])"
    by (simp add: this0_def demo_store_def world0_def)
  have upd: "UpdateCertificate demo ?w [bundle0] (Some 0) (config this0) = (Inr (Some 0), ?w, [bundle0])"
    by (simp add: engine_defs demo_simps this0_def cfg0_def bundle0_def world0_def)
  have cur: "AccessSource.currentCert this0 \<noteq> None"
    by (simp add: this0_def)
  from ReadCertificate_no_change [OF get upd, of "[]"] cur get upd show ?thesis by simp
qed


subsection \<open>The schedule of the polling watcher\<close>

lemma timers_append: "timers (xs @ ys) = timers xs @ timers ys"
  by (simp add: timers_def)

lemma timers_snoc [simp]:
  "timers (tr @ [CallTimerReset d]) = timers tr @ [d]"
  "timers (tr @ [CallNewTimer d]) = timers tr @ [d]"
  "timers (tr @ [CallTimerStop]) = timers tr"
  by (simp_all add: timers_def)

lemma schedule_step:
  "schedule d backoff (Some e # errs) = backoff # schedule d (dur_div (backoff * 3) 2) errs"
  "schedule d backoff (None # errs) = d # schedule d (1 * Second) errs"
  by (simp_all add: reschedule_def)

lemma timers_ReadCertificate:
  assumes "AccessSource_ReadCertificate env this w h tr = (err, this1, w1, h1, tr1)"
  shows "timers tr1 = timers tr"
  using assms
  by (auto simp: AccessSource_ReadCertificate_def timers_def
      split: prod.splits sum.splits option.splits if_splits)

lemma timers_watch_loop:
  "timers (snd (snd (snd (watch_loop env d backoff rs this w h tr))))
     = timers tr @ schedule d backoff (outcomes env d backoff rs this w h tr)"
proof (induction env d backoff rs this w h tr rule: watch_loop.induct)
  case (1 env d backoff this w h tr)
  then show ?case by simp
next
  case (2 env d backoff rs this w h tr)
  then show ?case by simp
next
  case (3 env d backoff rs this w h tr)
  then show ?case by simp
next
  case (4 env d backoff rs this w h tr)
  obtain err this1 w1 h1 tr1 where
    rc: "AccessSource_ReadCertificate env this w h tr = (err, this1, w1, h1, tr1)"
    by (cases "AccessSource_ReadCertificate env this w h tr") auto
  obtain nxt backoff1 where rs: "reschedule d backoff err = (nxt, backoff1)"
    by (cases "reschedule d backoff err") auto
  show ?case
  proof (cases "panicked err")
    case True
    then show ?thesis
      by (simp add: rc timers_ReadCertificate [OF rc])
  next
    case False
    from "4.IH" [of err "(this1, w1, h1, tr1)" this1 "(w1, h1, tr1)" w1 "(h1, tr1)" h1 tr1 nxt backoff1]
    have "timers (snd (snd (snd (watch_loop env d backoff1 rs this1 w1 h1 (tr1 @ [CallTimerReset nxt])))))
       = timers (tr1 @ [CallTimerReset nxt])
         @ schedule d backoff1 (outcomes env d backoff1 rs this1 w1 h1 (tr1 @ [CallTimerReset nxt]))"
      by (simp add: rc rs False)
    with False show ?thesis
      by (simp add: rc rs timers_ReadCertificate [OF rc])
  qed
qed

lemma sint_interval: "sint (interval cfg) = min (sint (Rest cfg)) (sint (10 * Minute))"
  by (auto simp: interval_def Let_def word_sless_alt min_def)




lemma ten_failures:
  "map sint (schedule d (1 * Second) (replicate 10 (Some e)))
     = [1000000000, 1500000000, 2250000000, 3375000000, 5062500000, 7593750000,
        11390625000, 17085937500, 25628906250, 38443359375]"
  by (simp add: eval_nat_numeral schedule_step dur_div_def signed_divide_int_def Second_def
      Nanosecond_def del: schedule.simps(2))

lemma outcomes_scenario:
  "outcomes demo (interval cfg0) (1 * Second) [TimerFired, TimerFired, TimerFired, TimerFired]
     this0 (world0\<lparr> outage := 3 \<rparr>) [] [CallNewTimer (interval cfg0)]
   = [Some (LibError ''store unavailable''), Some (LibError ''store unavailable''),
      Some (LibError ''store unavailable''), None]"
  by (simp add: AccessSource_ReadCertificate_def reschedule_def panicked_def engine_defs
      demo_simps this0_def cfg0_def demo_store_def world0_def)

text \<open>
  C8, as stated, fails in one point: the back-off is not multiplied by exactly 1.5 for
  each consecutive failure. Line 118 computes \<^verbatim>\<open>backoff * 3 / 2\<close> on an \<^verbatim>\<open>int64\<close> count
  of nanoseconds, and the division truncates: with the store unavailable for eleven
  refreshes in a row the delays are the interval (ten minutes here) and then 1 s, 1.5 s,
  ..., 38.443359375 s, and the eleventh is 57665039062 ns, which is not 1.5 times the
  tenth.
\<close>

theorem backoff_not_exact_counterexample:
  "map sint (timers (snd (snd (snd (AccessSource_watch demo (replicate 11 TimerFired) this0
      (world0\<lparr> outage := 11 \<rparr>) [] [])))))
   = [600000000000, 1000000000, 1500000000, 2250000000, 3375000000, 5062500000, 7593750000,
        11390625000, 17085937500, 25628906250, 38443359375, 57665039062]
   \<and> 2 * (57665039062 :: int) \<noteq> 3 * 38443359375"
proof (intro conjI)
  show "map sint (timers (snd (snd (snd (AccessSource_watch demo (replicate 11 TimerFired) this0
      (world0\<lparr> outage := 11 \<rparr>) [] [])))))
   = [600000000000, 1000000000, 1500000000, 2250000000, 3375000000, 5062500000, 7593750000,
        11390625000, 17085937500, 25628906250, 38443359375, 57665039062]"
    by (simp add: eval_nat_numeral AccessSource_watch_def AccessSource_ReadCertificate_def
      interval_def reschedule_def panicked_def dur_div_def signed_divide_int_def timers_def
      this0_def cfg0_def demo_store_def world0_def Hour_def Minute_def Second_def Nanosecond_def)
  show "2 * (57665039062 :: int) \<noteq> 3 * 38443359375"
    by simp
qed

text \<open>
  C8, amended. The timer of the polling watcher is first set to the refresh interval,
  the smaller of \<^verbatim>\<open>Rest\<close> and ten minutes (as signed durations), and then, after each
  refresh, to the delay that the result of the refresh gives: after a failed refresh the
  current back-off, which is then multiplied by 3 and divided by 2 in \<^verbatim>\<open>int64\<close>
  nanoseconds, truncating; after a successful refresh the interval, and the back-off is
  one second again. The back-off starts at one second, so the delays after consecutive
  failures are 1 s, 1.5 s, 2.25 s, ...: exactly 1.5 times the one before for the first
  ten of them.
\<close>

theorem watch_schedule:
  "timers (snd (snd (snd (AccessSource_watch env rs this w h tr))))
     = timers tr @ interval (config this)
         # schedule (interval (config this)) (1 * Second)
             (outcomes env (interval (config this)) (1 * Second) rs this w h
                (tr @ [CallNewTimer (interval (config this))]))
   \<and> sint (interval (config this)) = min (sint (Rest (config this))) (sint (10 * Minute))
   \<and> schedule d backoff (Some e # errs) = backoff # schedule d (dur_div (backoff * 3) 2) errs
   \<and> schedule d backoff (None # errs) = d # schedule d (1 * Second) errs
   \<and> map sint (schedule d (1 * Second) (replicate 10 (Some e)))
       = [1000000000, 1500000000, 2250000000, 3375000000, 5062500000, 7593750000,
          11390625000, 17085937500, 25628906250, 38443359375]"
proof (intro conjI)
  show "timers (snd (snd (snd (AccessSource_watch env rs this w h tr))))
     = timers tr @ interval (config this)
         # schedule (interval (config this)) (1 * Second)
             (outcomes env (interval (config this)) (1 * Second) rs this w h
                (tr @ [CallNewTimer (interval (config this))]))"
    by (simp add: AccessSource_watch_def Let_def timers_watch_loop)
  show "sint (interval (config this)) = min (sint (Rest (config this))) (sint (10 * Minute))"
    by (rule sint_interval)
  show "schedule d backoff (Some e # errs) = backoff # schedule d (dur_div (backoff * 3) 2) errs"
    by (rule schedule_step)
  show "schedule d backoff (None # errs) = d # schedule d (1 * Second) errs"
    by (rule schedule_step)
  show "map sint (schedule d (1 * Second) (replicate 10 (Some e)))
       = [1000000000, 1500000000, 2250000000, 3375000000, 5062500000, 7593750000,
          11390625000, 17085937500, 25628906250, 38443359375]"
    by (rule ten_failures)
qed

text \<open>
  In the example library, with the store unavailable for three refreshes and back for
  the fourth: the interval, then 1 s, 1.5 s and 2.25 s, then the interval again.
\<close>

theorem watch_schedule_witness:
  "map sint (timers (snd (snd (snd (AccessSource_watch demo
       [TimerFired, TimerFired, TimerFired, TimerFired] this0 (world0\<lparr> outage := 3 \<rparr>) [] [])))))
   = [600000000000, 1000000000, 1500000000, 2250000000, 600000000000]"
proof -
  have d: "interval (config this0) = 10 * Minute"
    by (simp add: interval_def this0_def cfg0_def Hour_def Minute_def Second_def Nanosecond_def)
  have cfg: "config this0 = cfg0"
    by (simp add: this0_def)
  note inst = watch_schedule [of demo "[TimerFired, TimerFired, TimerFired, TimerFired]" this0
      "world0\<lparr> outage := 3 \<rparr>" "[]" "[]"]
  from inst [THEN conjunct1] outcomes_scenario cfg
  have "timers (snd (snd (snd (AccessSource_watch demo
       [TimerFired, TimerFired, TimerFired, TimerFired] this0 (world0\<lparr> outage := 3 \<rparr>) [] []))))
     = interval cfg0 # schedule (interval cfg0) (1 * Second)
         [Some (LibError ''store unavailable''), Some (LibError ''store unavailable''),
          Some (LibError ''store unavailable''), None]"
    by (simp add: timers_def)
  then show ?thesis
    by (simp add: schedule_step dur_div_def signed_divide_int_def interval_def cfg0_def
        Hour_def Minute_def Second_def Nanosecond_def del: schedule.simps(2))
qed


subsection \<open>Construction of the file watcher\<close>

lemma add_files_trace:
  assumes "add_files fs wt fl w tr = (r, w', tr')"
  shows "\<exists>tr''. tr' = tr @ tr'' \<and> GoWatch \<notin> set tr''"
  using assms
proof (induction fl arbitrary: w tr)
  case Nil
  then show ?case by simp
next
  case (Cons f fl)
  show ?case
  proof (cases "Watcher_Add fs w wt f")
    case (Pair e w1)
    show ?thesis
    proof (cases e)
      case None
      with Cons.prems Pair have "add_files fs wt fl w1 (tr @ [CallWatcherAdd f]) = (r, w', tr')"
        by simp
      from Cons.IH [OF this] show ?thesis
        by auto
    next
      case (Some err)
      with Cons.prems Pair show ?thesis
        by auto
    qed
  qed
qed

text \<open>
  C10. When adding the watch fails for the certificate path, or succeeds for it and
  fails for the key path, \<^verbatim>\<open>start\<close> returns the error before it starts the goroutine
  and \<^verbatim>\<open>New\<close> drops it: \<^verbatim>\<open>New\<close> returns the watcher, with the certificate it loaded,
  and a nil error, whatever the context, and the calls it made do not include the start
  of the goroutine that consumes the events, so no event is ever handled for this
  watcher.
\<close>

theorem watch_add_failure_discarded:
  assumes load: "tls_LoadX509KeyPair fs w cp kp = (Inr pair, w1)"
    and nw: "fsnotify_NewWatcher fs w1 = (Inr wt, w2)"
    and add: "Watcher_Add fs w2 wt cp = (Some err, w3)
              \<or> (\<exists>wa. Watcher_Add fs w2 wt cp = (None, wa) \<and> Watcher_Add fs wa wt kp = (Some err, w3))"
  shows "\<exists>tr'. file_New fs ctx cp kp w tr
                 = Some (Inr \<lparr> CertWatcher.currentCert = Some pair, watcher = Some wt,
                              certPath = cp, keyPath = kp \<rparr>, w3, tr @ tr')
               \<and> GoWatch \<notin> set tr'"
proof -
  let ?tr = "tr @ [CallLoadX509KeyPair, CallLock, CallUnlock, CallNewWatcher]"
  from add obtain tr1 where failed: "add_files fs wt [cp, kp] w2 ?tr = (Some err, w3, tr1)"
    by auto
  from add_files_trace [OF failed] obtain tr2 where tr1: "tr1 = ?tr @ tr2" and no: "GoWatch \<notin> set tr2"
    by auto
  have "file_New fs ctx cp kp w tr
          = Some (Inr \<lparr> CertWatcher.currentCert = Some pair, watcher = Some wt,
                       certPath = cp, keyPath = kp \<rparr>, w3, tr1)"
    using failed
    by (simp add: file_New_def CertWatcher_ReadCertificate_def CertWatcher_start_def load nw
        del: add_files.simps)
  with tr1 no show ?thesis
    by (intro exI [of _ "[CallLoadX509KeyPair, CallLock, CallUnlock, CallNewWatcher] @ tr2"]) simp
qed

text \<open>
  With room for one watch only, the second \<^verbatim>\<open>Add\<close> fails: \<^verbatim>\<open>New\<close> returns the watcher
  \<open>cw0\<close>, even under a context that is never cancelled.
\<close>

theorem watch_add_failure_discarded_witness:
  "file_New demo_fs \<lparr> Done = NeverClosed \<rparr> ''tls.crt'' ''tls.key'' (world0\<lparr> watch_limit := 1 \<rparr>) []
     = Some (Inr cw0, world0\<lparr> watch_limit := 1, watched := [''tls.crt''] \<rparr>,
             [CallLoadX509KeyPair, CallLock, CallUnlock, CallNewWatcher,
              CallWatcherAdd ''tls.crt'', CallWatcherAdd ''tls.key''])"
proof -
  let ?w = "world0\<lparr> watch_limit := 1 \<rparr>"
  have load: "tls_LoadX509KeyPair demo_fs ?w ''tls.crt'' ''tls.key'' = (Inr pair0, ?w)"
    by (simp add: demo_fs_def demo_simps world0_def pair0_def)
  have nw: "fsnotify_NewWatcher demo_fs ?w = (Inr 0, ?w)"
    by (simp add: demo_fs_def)
  have add: "Watcher_Add demo_fs ?w 0 ''tls.crt'' = (Some (LibError ''no space left on device''), ?w\<lparr> watched := [''tls.crt''] \<rparr>)
      \<or> (\<exists>wa. Watcher_Add demo_fs ?w 0 ''tls.crt'' = (None, wa)
             \<and> Watcher_Add demo_fs wa 0 ''tls.key''
                 = (Some (LibError ''no space left on device''), ?w\<lparr> watched := [''tls.crt''] \<rparr>))"
    by (simp add: demo_fs_def world0_def)
  from watch_add_failure_discarded [OF load nw add, of "\<lparr> Done = NeverClosed \<rparr>" "[]"]
  obtain tr' where "file_New demo_fs \<lparr> Done = NeverClosed \<rparr> ''tls.crt'' ''tls.key'' ?w []
      = Some (Inr \<lparr> CertWatcher.currentCert = Some pair0, watcher = Some 0,
                   certPath = ''tls.crt'', keyPath = ''tls.key'' \<rparr>,
              ?w\<lparr> watched := [''tls.crt''] \<rparr>, [] @ tr')"
    by auto
  then show ?thesis
    by (simp add: file_New_def CertWatcher_ReadCertificate_def CertWatcher_start_def
        demo_fs_def demo_simps world0_def pair0_def cw0_def)
qed

text \<open>
  When the initial load and both \<^verbatim>\<open>Add\<close> calls succeed, \<^verbatim>\<open>New\<close> waits in \<^verbatim>\<open>start\<close> for
  the stop channel: under a context that is never cancelled it does not return.
\<close>

lemma file_New_never_returns:
  assumes "tls_LoadX509KeyPair fs w cp kp = (Inr pair, w1)"
    and "fsnotify_NewWatcher fs w1 = (Inr wt, w2)"
    and "Watcher_Add fs w2 wt cp = (None, w3)"
    and "Watcher_Add fs w3 wt kp = (None, w4)"
  shows "file_New fs \<lparr> Done = NeverClosed \<rparr> cp kp w tr = None"
  using assms
  by (simp add: file_New_def CertWatcher_ReadCertificate_def CertWatcher_start_def)

text \<open>
  C9 does not hold of \<^verbatim>\<open>file.New\<close>: line 192 calls \<^verbatim>\<open>cw.start(ctx.Done())\<close> in the
  caller's goroutine, and \<^verbatim>\<open>start\<close> blocks on \<^verbatim>\<open><-stopCh\<close> (line 219). With both files
  in place and a context that is never cancelled \<^verbatim>\<open>New\<close> does not return; with a
  context that is cancelled it returns only then, after \<^verbatim>\<open>Close\<close>, with a watcher
  that watches nothing any more. (The polling watcher's \<^verbatim>\<open>start\<close> runs its loop with
  \<^verbatim>\<open>go\<close> and returns.)
\<close>

theorem file_New_blocks:
  "file_New demo_fs \<lparr> Done = NeverClosed \<rparr> ''tls.crt'' ''tls.key'' world0 [] = None
   \<and> file_New demo_fs \<lparr> Done = ClosedAfter [] \<rparr> ''tls.crt'' ''tls.key'' world0 []
       = Some (Inr cw0, world0,
               [CallLoadX509KeyPair, CallLock, CallUnlock, CallNewWatcher,
                CallWatcherAdd ''tls.crt'', CallWatcherAdd ''tls.key'', GoWatch, CallWatcherClose])"
  by (simp add: file_New_def CertWatcher_ReadCertificate_def CertWatcher_start_def
        demo_fs_def demo_simps world0_def pair0_def cw0_def)


end
